theory Spec2Isabelle
  imports Main "HOL-Library.Word"
begin

section \<open>JavaScript values used by the authentication code\<close>

text \<open>
  Strings are byte strings (\<open>char list\<close>). A value that is a string, \<open>null\<close> or
  \<open>undefined\<close> is a \<open>string option\<close>; JavaScript truthiness makes the empty string
  count as absent, which \<open>truthy\<close> writes out.
\<close>

type_synonym byte = "8 word"

definition truthy :: "string option \<Rightarrow> bool" where
  "truthy v = (case v of None \<Rightarrow> False | Some s \<Rightarrow> s \<noteq> [])"

text \<open>\<open>!v\<close> on such a value.\<close>

definition falsy :: "string option \<Rightarrow> bool" where
  "falsy v = (\<not> truthy v)"

text \<open>\<open>a || b\<close> on such values.\<close>

definition js_or :: "string option \<Rightarrow> string option \<Rightarrow> string option" where
  "js_or a b = (if truthy a then a else b)"

text \<open>\<open>String(v)\<close>, as \<open>URLSearchParams\<close> applies it to a value.\<close>

definition js_str :: "string option \<Rightarrow> string" where
  "js_str v = (case v of None \<Rightarrow> ''undefined'' | Some s \<Rightarrow> s)"

text \<open>
  A \<open>Date\<close> object is a time value in milliseconds since the epoch, or the Invalid Date
  (time value NaN). Every comparison with the Invalid Date is false.
\<close>

datatype jsdate = InvalidDate | Instant int

definition new_Date :: "int option \<Rightarrow> jsdate" where
  "new_Date ms =
     (case ms of
        None \<Rightarrow> InvalidDate
      | Some t \<Rightarrow> if \<bar>t\<bar> \<le> 8640000000000000 then Instant t else InvalidDate)"

definition date_lt :: "int \<Rightarrow> jsdate \<Rightarrow> bool" where
  "date_lt now d = (case d of InvalidDate \<Rightarrow> False | Instant t \<Rightarrow> now < t)"

definition date_ge :: "int \<Rightarrow> jsdate \<Rightarrow> bool" where
  "date_ge now d = (case d of InvalidDate \<Rightarrow> False | Instant t \<Rightarrow> t \<le> now)"

section \<open>PKCE utilities (lib/auth/pkce.js)\<close>

definition possible :: string where
  "possible = ''ABCDEFGHIJKLMNOPQRSTUVWXYZabcdefghijklmnopqrstuvwxyz0123456789-._~''"

text \<open>
  \<open>crypto.getRandomValues(new Uint8Array(length))\<close>: the platform's secure random
  source is a stream of bytes; a call takes the next \<open>length\<close> bytes of it.
\<close>

type_synonym entropy = "nat \<Rightarrow> byte"

definition getRandomValues :: "nat \<Rightarrow> entropy \<Rightarrow> byte list \<times> entropy" where
  "getRandomValues length' rng = (map rng [0..<length'], \<lambda>i. rng (i + length'))"

text \<open>
  \<open>generateRandomString\<close> folds over those bytes:
  \<open>values.reduce((acc, x) => acc + possible[x % possible.length], '')\<close>.
\<close>

definition generateRandomString :: "nat \<Rightarrow> entropy \<Rightarrow> string \<times> entropy" where
  "generateRandomString length' rng =
     (let (values, rng') = getRandomValues length' rng
      in (foldl (\<lambda>acc x. acc @ [possible ! (unat x mod length possible)]) [] values, rng'))"

text \<open>
  \<open>btoa\<close> is the platform's base64 encoder (RFC 4648, section 4, with padding); the
  argument is the binary string built from the bytes of the buffer.
\<close>

definition b64_std :: string where
  "b64_std = ''ABCDEFGHIJKLMNOPQRSTUVWXYZabcdefghijklmnopqrstuvwxyz0123456789+/''"

fun btoa :: "byte list \<Rightarrow> string" where
  "btoa [] = []"
| "btoa [a] =
     [b64_std ! (unat a div 4), b64_std ! ((unat a mod 4) * 16), CHR ''='', CHR ''='']"
| "btoa [a, b] =
     [b64_std ! (unat a div 4), b64_std ! ((unat a mod 4) * 16 + unat b div 16),
      b64_std ! ((unat b mod 16) * 4), CHR ''='']"
| "btoa (a # b # c # rest) =
     [b64_std ! (unat a div 4), b64_std ! ((unat a mod 4) * 16 + unat b div 16),
      b64_std ! ((unat b mod 16) * 4 + unat c div 64), b64_std ! (unat c mod 64)] @ btoa rest"

text \<open>\<open>s.replace(/x/g, y)\<close> for a single character \<open>x\<close>, and \<open>s.replace(/x/g, '')\<close>.\<close>

definition replace_char :: "char \<Rightarrow> char \<Rightarrow> string \<Rightarrow> string" where
  "replace_char x y s = map (\<lambda>c. if c = x then y else c) s"

definition remove_char :: "char \<Rightarrow> string \<Rightarrow> string" where
  "remove_char x s = filter (\<lambda>c. c \<noteq> x) s"

definition base64urlEncode :: "byte list \<Rightarrow> string" where
  "base64urlEncode buffer =
     remove_char (CHR ''='')
       (replace_char (CHR ''/'') (CHR ''_'')
         (replace_char (CHR ''+'') (CHR ''-'') (btoa buffer)))"

text \<open>\<open>TextEncoder.encode\<close>: the UTF-8 bytes of the string.\<close>

definition TextEncoder_encode :: "string \<Rightarrow> byte list" where
  "TextEncoder_encode plain = map (\<lambda>c. of_char c) plain"

text \<open>
  \<open>sha256\<close> of pkce.js. \<open>crypto.subtle.digest\<close> is a primitive of the platform: it is
  the parameter \<open>digest\<close>, which takes the name of the algorithm and the data.
\<close>

definition sha256 :: "(string \<Rightarrow> byte list \<Rightarrow> byte list) \<Rightarrow> string \<Rightarrow> string" where
  "sha256 digest plain = base64urlEncode (digest ''SHA-256'' (TextEncoder_encode plain))"

definition generatePKCEPair ::
  "(string \<Rightarrow> byte list \<Rightarrow> byte list) \<Rightarrow> entropy \<Rightarrow> (string \<times> string) \<times> entropy" where
  "generatePKCEPair digest rng =
     (let (codeVerifier, rng') = generateRandomString 128 rng;
          codeChallenge = sha256 digest codeVerifier
      in ((codeVerifier, codeChallenge), rng'))"

definition generateState :: "entropy \<Rightarrow> string \<times> entropy" where
  "generateState rng = generateRandomString 16 rng"

subsection \<open>What the specification asks of the pair\<close>

text \<open>
  The unreserved URL-safe alphabet, as the specification lists it: A-Z, a-z, 0-9 and the
  four marks.
\<close>

definition unreserved :: "char \<Rightarrow> bool" where
  "unreserved c =
     ((of_char (CHR ''A'') \<le> (of_char c :: nat) \<and> (of_char c :: nat) \<le> of_char (CHR ''Z'')) \<or>
      (of_char (CHR ''a'') \<le> (of_char c :: nat) \<and> (of_char c :: nat) \<le> of_char (CHR ''z'')) \<or>
      (of_char (CHR ''0'') \<le> (of_char c :: nat) \<and> (of_char c :: nat) \<le> of_char (CHR ''9'')) \<or>
      c = CHR ''-'' \<or> c = CHR ''.'' \<or> c = CHR ''_'' \<or> c = CHR ''~'')"

text \<open>
  The base64url encoding of RFC 4648, section 5, written directly over the URL-safe
  alphabet and without padding: the specification's wording of the challenge encoding.
\<close>

definition b64_url :: string where
  "b64_url = ''ABCDEFGHIJKLMNOPQRSTUVWXYZabcdefghijklmnopqrstuvwxyz0123456789-_''"

fun base64url_unpadded :: "byte list \<Rightarrow> string" where
  "base64url_unpadded [] = []"
| "base64url_unpadded [a] = [b64_url ! (unat a div 4), b64_url ! ((unat a mod 4) * 16)]"
| "base64url_unpadded [a, b] =
     [b64_url ! (unat a div 4), b64_url ! ((unat a mod 4) * 16 + unat b div 16),
      b64_url ! ((unat b mod 16) * 4)]"
| "base64url_unpadded (a # b # c # rest) =
     [b64_url ! (unat a div 4), b64_url ! ((unat a mod 4) * 16 + unat b div 16),
      b64_url ! ((unat b mod 16) * 4 + unat c div 64), b64_url ! (unat c mod 64)]
     @ base64url_unpadded rest"

text \<open>
  The three replacements of \<open>base64urlEncode\<close> seen on one character (the padding
  character, which the third replacement deletes, is left as it is).
\<close>

definition url_char :: "char \<Rightarrow> char" where
  "url_char ch = (if (if ch = CHR ''+'' then CHR ''-'' else ch) = CHR ''/'' then CHR ''_''
                  else (if ch = CHR ''+'' then CHR ''-'' else ch))"


section \<open>The environment of the client\<close>

text \<open>
  Every \<open>throw\<close> of the code is a value of \<open>error\<close>; the message texts are kept as the
  constructor and the data the message is built from.
\<close>

datatype error =
    ReferenceError string
  | MissingEnvironmentVariables "string list"
  | InvalidStateParameter
  | MissingPKCECodeVerifier
  | TokenExchangeFailed "string option"
  | NoRefreshTokenAvailable
  | TokenRefreshFailed "string option"
  | NoAccessTokenAvailable
  | AuthenticationRequired
  | SpotifyApiError nat
  | SyntaxError
  | RangeError
  | NetworkError

text \<open>
  The state of the promise an \<open>async\<close> function returns: fulfilled with a value, rejected
  with an error, or never settled (the code sets no timeout on any request, so a request
  that gets no answer leaves the caller suspended at its \<open>await\<close>).
\<close>

datatype 'a outcome = Fulfilled 'a | Rejected error | Pending

text \<open>
  A JSON object in a response body, as the fields the code reads; \<open>payload\<close> stands for
  everything else in it. \<open>NotJson\<close> is a body on which \<open>response.json()\<close> rejects.
\<close>

record json =
  access_token :: "string option"
  refresh_token :: "string option"
  expires_in :: "int option"
  error :: "string option"
  error_description :: "string option"
  payload :: string

datatype body = NotJson | Json json

record response =
  status :: nat
  body :: body

definition ok :: "response \<Rightarrow> bool" where
  "ok r = (200 \<le> status r \<and> status r \<le> 299)"

text \<open>
  A request the code sends with \<open>fetch\<close>: a form-encoded POST (the URL and the
  \<open>URLSearchParams\<close> of its body) or an API call (the URL and the bearer token of its
  \<open>Authorization\<close> header).
\<close>

datatype request =
    Post string "(string \<times> string) list"
  | Api string string

text \<open>
  What the network does with a request: it answers, or the \<open>fetch\<close> promise rejects.
\<close>

datatype fetch_result = Responds response | Fails

text \<open>
  The value stored under \<open>spotify_tokens\<close> in \<open>localStorage\<close>: the empty string, a text
  on which the \<open>try\<close> block of \<open>loadTokensFromStorage\<close> throws (\<open>JSON.parse\<close> rejects it),
  or the JSON of \<open>saveTokensToStorage\<close> with its three fields (the expiry field is
  absent, or a date string; a string that is no date reads back as the Invalid Date).
\<close>

datatype stored = EmptyText | Unparsable | TokensJson "string option" "string option" "jsdate option"

text \<open>
  The world around the client. \<open>window\<close> is \<open>typeof window !== 'undefined'\<close>; \<open>clock\<close> is
  what \<open>Date.now()\<close> and \<open>new Date()\<close> read (one reading for the whole of an operation);
  the two environment variables are those of \<open>process.env\<close>; \<open>script\<close> is what the network
  will do with the requests to come, in order, and \<open>requests\<close> the requests sent so far;
  \<open>href\<close> is the last assignment to \<open>window.location.href\<close>.
\<close>

record world =
  window :: bool
  clock :: int
  env_client_id :: "string option"
  env_client_secret :: "string option"
  origin :: string
  localStorage :: "string \<rightharpoonup> stored"
  sessionStorage :: "string \<rightharpoonup> string"
  href :: "string option"
  crypto :: entropy
  script :: "fetch_result list"
  requests :: "request list"

text \<open>
  \<open>fetch\<close> in two halves: the call sends the request; the \<open>await\<close> takes the network's next
  answer, and stays pending when there is none.
\<close>

definition send :: "request \<Rightarrow> world \<Rightarrow> world" where
  "send rq w = w\<lparr>requests := requests w @ [rq]\<rparr>"

definition receive :: "world \<Rightarrow> fetch_result option \<times> world" where
  "receive w =
     (case script w of
        [] \<Rightarrow> (None, w)
      | x # rest \<Rightarrow> (Some x, w\<lparr>script := rest\<rparr>))"

section \<open>Configuration (lib/config/spotify.js)\<close>

definition SPOTIFY_API_BASE_URL :: string where
  "SPOTIFY_API_BASE_URL = ''https://api.spotify.com/v1''"

definition SPOTIFY_ACCOUNTS_BASE_URL :: string where
  "SPOTIFY_ACCOUNTS_BASE_URL = ''https://accounts.spotify.com''"

record config =
  clientId :: "string option"
  clientSecret :: "string option"
  redirectUri :: string
  scopes :: string
  authorize :: string
  token :: string
  search :: string

text \<open>\<open>Array.prototype.join\<close>.\<close>

fun join :: "string \<Rightarrow> string list \<Rightarrow> string" where
  "join sep [] = []"
| "join sep [x] = x"
| "join sep (x # y # ys) = x @ sep @ join sep (y # ys)"

definition getSpotifyConfig :: "world \<Rightarrow> config" where
  "getSpotifyConfig w =
     \<lparr> clientId = env_client_id w,
       clientSecret = (if \<not> window w then env_client_secret w else None),
       redirectUri =
         (if window w then origin w @ ''/api/auth/callback/spotify''
          else ''http://localhost:3000/api/auth/callback/spotify''),
       scopes =
         join '' ''
           [''user-read-private'', ''user-read-email'', ''playlist-read-private'',
            ''playlist-read-collaborative'', ''streaming'', ''user-read-playback-state'',
            ''user-modify-playback-state''],
       authorize = SPOTIFY_ACCOUNTS_BASE_URL @ ''/authorize'',
       token = SPOTIFY_ACCOUNTS_BASE_URL @ ''/api/token'',
       search = SPOTIFY_API_BASE_URL @ ''/search'' \<rparr>"

text \<open>
  \<open>validateSpotifyConfig\<close>: the names of the required variables whose value is falsy; it
  throws when there is one, and returns \<open>true\<close> otherwise.
\<close>

definition missing_variables :: "(string \<times> string option) list \<Rightarrow> string list" where
  "missing_variables required = map fst (filter (\<lambda>(key, value). \<not> truthy value) required)"

definition validateSpotifyConfig :: "world \<Rightarrow> bool outcome" where
  "validateSpotifyConfig w =
     (let config = getSpotifyConfig w in
      if window w then
        (let missing = missing_variables [(''NEXT_PUBLIC_SPOTIFY_CLIENT_ID'', clientId config)]
         in if length missing > 0 then Rejected (MissingEnvironmentVariables missing)
            else Fulfilled True)
      else
        (let missing = missing_variables
               [(''NEXT_PUBLIC_SPOTIFY_CLIENT_ID'', clientId config),
                (''SPOTIFY_CLIENT_SECRET'', clientSecret config)]
         in if length missing > 0 then Rejected (MissingEnvironmentVariables missing)
            else Fulfilled True))"

section \<open>Session storage of the pending authorization (lib/auth/pkce.js)\<close>

definition storePKCEVerifier :: "string \<Rightarrow> world \<Rightarrow> world" where
  "storePKCEVerifier codeVerifier w =
     (if window w
      then w\<lparr>sessionStorage := (sessionStorage w)(''spotify_code_verifier'' \<mapsto> codeVerifier)\<rparr>
      else w)"

definition retrievePKCEVerifier :: "world \<Rightarrow> string option \<times> world" where
  "retrievePKCEVerifier w =
     (if window w
      then (let verifier = sessionStorage w ''spotify_code_verifier''
            in (verifier, w\<lparr>sessionStorage := (sessionStorage w)(''spotify_code_verifier'' := None)\<rparr>))
      else (None, w))"

definition storeState :: "string \<Rightarrow> world \<Rightarrow> world" where
  "storeState state w =
     (if window w
      then w\<lparr>sessionStorage := (sessionStorage w)(''spotify_oauth_state'' \<mapsto> state)\<rparr>
      else w)"

definition retrieveState :: "world \<Rightarrow> string option \<times> world" where
  "retrieveState w =
     (if window w
      then (let state = sessionStorage w ''spotify_oauth_state''
            in (state, w\<lparr>sessionStorage := (sessionStorage w)(''spotify_oauth_state'' := None)\<rparr>))
      else (None, w))"

section \<open>The API client (lib/services/spotifyApi.js)\<close>

record client =
  accessToken :: "string option"
  refreshToken :: "string option"
  tokenExpiry :: "jsdate option"

definition clearStoredTokens :: "client \<Rightarrow> world \<Rightarrow> client \<times> world" where
  "clearStoredTokens c w =
     (c\<lparr>accessToken := None, refreshToken := None, tokenExpiry := None\<rparr>,
      if window w then w\<lparr>localStorage := (localStorage w)(''spotify_tokens'' := None)\<rparr> else w)"



text \<open>
  \<open>saveTokensToStorage\<close>: \<open>this.tokenExpiry?.toISOString()\<close> throws a RangeError on the
  Invalid Date; the result is the error thrown, if any.
\<close>

definition saveTokensToStorage :: "client \<Rightarrow> world \<Rightarrow> error option \<times> world" where
  "saveTokensToStorage c w =
     (if window w \<and> truthy (accessToken c) then
        (case tokenExpiry c of
           Some InvalidDate \<Rightarrow> (Some RangeError, w)
         | e \<Rightarrow>
             (None, w\<lparr>localStorage := (localStorage w)
                (''spotify_tokens'' \<mapsto> TokensJson (accessToken c) (refreshToken c) e)\<rparr>))
      else (None, w))"

definition isAuthenticated :: "client \<Rightarrow> world \<Rightarrow> bool" where
  "isAuthenticated c w =
     (truthy (accessToken c) \<and>
      (case tokenExpiry c of None \<Rightarrow> False | Some d \<Rightarrow> date_lt (clock w) d))"

definition getAccessToken :: "client \<Rightarrow> string option" where
  "getAccessToken c = accessToken c"

text \<open>\<open>URLSearchParams.toString()\<close>: the form-urlencoded serialisation.\<close>

definition alphanumeric :: "char \<Rightarrow> bool" where
  "alphanumeric c =
     (let n = (of_char c :: nat)
      in (48 \<le> n \<and> n \<le> 57) \<or> (65 \<le> n \<and> n \<le> 90) \<or> (97 \<le> n \<and> n \<le> 122))"

definition hex_digit :: "nat \<Rightarrow> char" where
  "hex_digit n = ''0123456789ABCDEF'' ! n"

definition form_encode_char :: "char \<Rightarrow> string" where
  "form_encode_char c =
     (if c = CHR '' '' then ''+''
      else if alphanumeric c \<or> c = CHR ''*'' \<or> c = CHR ''-'' \<or> c = CHR ''.'' \<or> c = CHR ''_''
      then [c]
      else [CHR ''%'', hex_digit (of_char c div 16), hex_digit (of_char c mod 16)])"

definition form_encode :: "string \<Rightarrow> string" where
  "form_encode s = concat (map form_encode_char s)"

definition URLSearchParams_toString :: "(string \<times> string) list \<Rightarrow> string" where
  "URLSearchParams_toString params =
     join ''&'' (map (\<lambda>(key, value). form_encode key @ ''='' @ form_encode value) params)"

text \<open>
  \<open>initiateAuth\<close>. The parameters of the authorization URL are the object literal passed
  to \<open>URLSearchParams\<close>.
\<close>

definition authorization_params :: "config \<Rightarrow> string \<Rightarrow> (string \<times> string) list" where
  "authorization_params config state =
     [(''response_type'', ''code''),
      (''client_id'', js_str (clientId config)),
      (''scope'', scopes config),
      (''redirect_uri'', redirectUri config),
      (''state'', state)]"

definition initiateAuth :: "world \<Rightarrow> string outcome \<times> world" where
  "initiateAuth w =
     (let (state, rng') = generateState (crypto w);
          w1 = storeState state (w\<lparr>crypto := rng'\<rparr>)
      in case validateSpotifyConfig w1 of
           Rejected e \<Rightarrow> (Rejected e, w1)
         | Pending \<Rightarrow> (Pending, w1)
         | Fulfilled _ \<Rightarrow>
             (let config = getSpotifyConfig w1;
                  params = authorization_params config state;
                  authUrl = authorize config @ ''?'' @ URLSearchParams_toString params;
                  w2 = (if window w1 then w1\<lparr>href := Some authUrl\<rparr> else w1)
              in (Fulfilled authUrl, w2)))"

text \<open>
  \<open>setTokens\<close>: \<open>tokens.expires_in * 1000\<close> is NaN when the field is absent, and the date
  then the Invalid Date. The result is the error \<open>saveTokensToStorage\<close> threw, if any; the
  three fields are assigned before it runs.
\<close>

definition setTokens :: "json \<Rightarrow> client \<Rightarrow> world \<Rightarrow> error option \<times> client \<times> world" where
  "setTokens tokens c w =
     (let c1 = c\<lparr>accessToken := access_token tokens,
                 refreshToken := refresh_token tokens,
                 tokenExpiry :=
                   Some (new_Date (map_option (\<lambda>s. clock w + s * 1000) (expires_in tokens)))\<rparr>;
          (thrown, w1) = saveTokensToStorage c1 w
      in (thrown, c1, w1))"

text \<open>
  The names that spotifyApi.js binds by its two \<open>import\<close> statements. A call of any
  other free identifier throws a ReferenceError when it is evaluated.
\<close>

definition spotifyApi_imports :: "string list" where
  "spotifyApi_imports =
     [''getSpotifyConfig'', ''validateSpotifyConfig'', ''generateState'', ''storeState'']"

text \<open>
  \<open>handleAuthCallback\<close>, in a module scope given by the list of names bound from
  pkce.js and the configuration module. The method of the repository is the one in the
  scope \<open>spotifyApi_imports\<close>.
\<close>

definition handleAuthCallback_in ::
  "string list \<Rightarrow> string \<Rightarrow> string \<Rightarrow> client \<Rightarrow> world \<Rightarrow> bool outcome \<times> client \<times> world" where
  "handleAuthCallback_in scope code state c w =
     (if ''retrieveState'' \<notin> set scope then (Rejected (ReferenceError ''retrieveState''), c, w)
      else
        (let (storedState, w1) = retrieveState w in
         if Some state \<noteq> storedState then (Rejected InvalidStateParameter, c, w1)
         else if ''retrievePKCEVerifier'' \<notin> set scope
         then (Rejected (ReferenceError ''retrievePKCEVerifier''), c, w1)
         else
           (let (codeVerifier, w2) = retrievePKCEVerifier w1 in
            if \<not> truthy codeVerifier then (Rejected MissingPKCECodeVerifier, c, w2)
            else
              (let config = getSpotifyConfig w2;
                   w3 = send (Post (token config)
                          [(''grant_type'', ''authorization_code''),
                           (''code'', code),
                           (''redirect_uri'', redirectUri config),
                           (''client_id'', js_str (clientId config)),
                           (''code_verifier'', js_str codeVerifier)]) w2
               in case receive w3 of
                    (None, w4) \<Rightarrow> (Pending, c, w4)
                  | (Some Fails, w4) \<Rightarrow> (Rejected NetworkError, c, w4)
                  | (Some (Responds r), w4) \<Rightarrow>
                      if \<not> ok r then
                        (case body r of
                           NotJson \<Rightarrow> (Rejected SyntaxError, c, w4)
                         | Json error' \<Rightarrow>
                             (Rejected (TokenExchangeFailed
                                (js_or (error_description error') (error error'))), c, w4))
                      else
                        (case body r of
                           NotJson \<Rightarrow> (Rejected SyntaxError, c, w4)
                         | Json tokens \<Rightarrow>
                             (case setTokens tokens c w4 of
                                (Some e, c5, w5) \<Rightarrow> (Rejected e, c5, w5)
                              | (None, c5, w5) \<Rightarrow> (Fulfilled True, c5, w5)))))))"

definition handleAuthCallback ::
  "string \<Rightarrow> string \<Rightarrow> client \<Rightarrow> world \<Rightarrow> bool outcome \<times> client \<times> world" where
  "handleAuthCallback code state c w = handleAuthCallback_in spotifyApi_imports code state c w"

text \<open>
  \<open>refreshAccessToken\<close>. An \<open>async\<close> function runs synchronously up to its first
  \<open>await\<close>: \<open>refreshAccessToken_start\<close> is that part (the check of the refresh token and
  the call of \<open>fetch\<close>, which sends the request), \<open>refreshAccessToken_resume\<close> is the rest,
  run when the request has settled: the \<open>try\<close> block from the response on, and the
  \<open>catch\<close> block, which clears the tokens and throws the error again.
\<close>

definition refresh_request :: "client \<Rightarrow> world \<Rightarrow> request" where
  "refresh_request c w =
     (let config = getSpotifyConfig w
      in Post (token config)
           [(''grant_type'', ''refresh_token''),
            (''refresh_token'', js_str (refreshToken c)),
            (''client_id'', js_str (clientId config))])"

definition refreshAccessToken_start :: "client \<Rightarrow> world \<Rightarrow> error option \<times> world" where
  "refreshAccessToken_start c w =
     (if \<not> truthy (refreshToken c) then (Some NoRefreshTokenAvailable, w)
      else (None, send (refresh_request c w) w))"

definition refreshAccessToken_try ::
  "fetch_result \<Rightarrow> client \<Rightarrow> world \<Rightarrow> error option \<times> client \<times> world" where
  "refreshAccessToken_try result c w =
     (case result of
        Fails \<Rightarrow> (Some NetworkError, c, w)
      | Responds r \<Rightarrow>
          if \<not> ok r then
            (case body r of
               NotJson \<Rightarrow> (Some SyntaxError, c, w)
             | Json error' \<Rightarrow>
                 (Some (TokenRefreshFailed (js_or (error_description error') (error error'))),
                  c, w))
          else
            (case body r of
               NotJson \<Rightarrow> (Some SyntaxError, c, w)
             | Json tokens \<Rightarrow>
                 setTokens
                   (tokens\<lparr>refresh_token := js_or (refresh_token tokens) (refreshToken c)\<rparr>)
                   c w))"

definition refreshAccessToken_resume ::
  "fetch_result \<Rightarrow> client \<Rightarrow> world \<Rightarrow> bool outcome \<times> client \<times> world" where
  "refreshAccessToken_resume result c w =
     (case refreshAccessToken_try result c w of
        (None, c1, w1) \<Rightarrow> (Fulfilled True, c1, w1)
      | (Some e, c1, w1) \<Rightarrow>
          (let (c2, w2) = clearStoredTokens c1 w1 in (Rejected e, c2, w2)))"

text \<open>One call of \<open>refreshAccessToken\<close> with nothing else running in between.\<close>

definition refreshAccessToken :: "client \<Rightarrow> world \<Rightarrow> bool outcome \<times> client \<times> world" where
  "refreshAccessToken c w =
     (case refreshAccessToken_start c w of
        (Some e, w1) \<Rightarrow> (Rejected e, c, w1)
      | (None, w1) \<Rightarrow>
          (case receive w1 of
             (None, w2) \<Rightarrow> (Pending, c, w2)
           | (Some result, w2) \<Rightarrow> refreshAccessToken_resume result c w2))"

text \<open>
  \<open>makeApiRequest\<close>. All callers in the repository pass no \<open>options\<close>, so the request is a
  GET with the two headers the method sets.
\<close>

fun replace_first :: "string \<Rightarrow> string \<Rightarrow> string \<Rightarrow> string" where
  "replace_first pat rep [] = (if pat = [] then rep else [])"
| "replace_first pat rep (x # xs) =
     (if take (length pat) (x # xs) = pat then rep @ drop (length pat) (x # xs)
      else x # replace_first pat rep xs)"

definition request_url :: "string \<Rightarrow> world \<Rightarrow> string" where
  "request_url endpoint w =
     (if take 4 endpoint = ''http'' then endpoint
      else replace_first ''/search'' '''' (search (getSpotifyConfig w)) @ endpoint)"

definition token_expired :: "client \<Rightarrow> world \<Rightarrow> bool" where
  "token_expired c w =
     ((case tokenExpiry c of None \<Rightarrow> False | Some d \<Rightarrow> date_ge (clock w) d) \<and>
      truthy (refreshToken c))"

text \<open>
  The part of \<open>makeApiRequest\<close> before its \<open>fetch\<close>: the refresh of a token whose expiry has
  passed.
\<close>

definition refresh_if_expired :: "client \<Rightarrow> world \<Rightarrow> bool outcome \<times> client \<times> world" where
  "refresh_if_expired c w =
     (if token_expired c w then refreshAccessToken c w else (Fulfilled True, c, w))"

function makeApiRequest :: "string \<Rightarrow> client \<Rightarrow> world \<Rightarrow> json outcome \<times> client \<times> world" where
  "makeApiRequest endpoint c w =
     (case refresh_if_expired c w of
        (Rejected e, c1, w1) \<Rightarrow> (Rejected e, c1, w1)
      | (Pending, c1, w1) \<Rightarrow> (Pending, c1, w1)
      | (Fulfilled _, c1, w1) \<Rightarrow>
          if \<not> truthy (accessToken c1) then (Rejected NoAccessTokenAvailable, c1, w1)
          else
            (case receive (send (Api (request_url endpoint w1) (js_str (accessToken c1))) w1) of
               (None, w2) \<Rightarrow> (Pending, c1, w2)
             | (Some Fails, w2) \<Rightarrow> (Rejected NetworkError, c1, w2)
             | (Some (Responds r), w2) \<Rightarrow>
                 if status r = 401 then
                   (if truthy (refreshToken c1) then
                      (case refreshAccessToken c1 w2 of
                         (Rejected e, c3, w3) \<Rightarrow> (Rejected e, c3, w3)
                       | (Pending, c3, w3) \<Rightarrow> (Pending, c3, w3)
                       | (Fulfilled _, c3, w3) \<Rightarrow> makeApiRequest endpoint c3 w3)
                    else
                      (let (c3, w3) = clearStoredTokens c1 w2
                       in (Rejected AuthenticationRequired, c3, w3)))
                 else if \<not> ok r then (Rejected (SpotifyApiError (status r)), c1, w2)
                 else
                   (case body r of
                      NotJson \<Rightarrow> (Rejected SyntaxError, c1, w2)
                    | Json j \<Rightarrow> (Fulfilled j, c1, w2))))"
  by pat_completeness auto
termination
proof (relation "measure (\<lambda>(endpoint, c, w). length (script w))", goal_cases)
  case 1
  show ?case by simp
next
  case (2 endpoint c w x y x1 c1 w1 xb w2 x2 r xc yc x1b c3 w3)
  have receive_le: "length (script v') \<le> length (script v)" if "receive v = (a, v')" for v a v'
    using that by (auto simp: receive_def split: list.splits)
  have receive_less: "length (script v') < length (script v)" if "receive v = (Some a, v')" for v a v'
    using that by (auto simp: receive_def split: list.splits)
  have save: "script (snd (saveTokensToStorage k v)) = script v" for k v
    by (simp add: saveTokensToStorage_def split: option.splits jsdate.splits)
  have set_tokens: "script (snd (snd (setTokens j k v))) = script v" for j k v
    using save [of _ v] by (simp add: setTokens_def Let_def split: prod.splits) (metis snd_conv)
  have tried: "script (snd (snd (refreshAccessToken_try a k v))) = script v" for a k v
    by (simp add: refreshAccessToken_try_def set_tokens split: fetch_result.splits body.splits)
  have resume: "script (snd (snd (refreshAccessToken_resume a k v))) = script v" for a k v
    using tried [of a k v]
    by (auto simp: refreshAccessToken_resume_def clearStoredTokens_def
        split: prod.splits option.splits)
  have refresh: "length (script v') \<le> length (script v)"
    if "refreshAccessToken k v = (a, k', v')" for k v a k' v'
  proof (cases "truthy (refreshToken k)")
    case False
    with that show ?thesis by (simp add: refreshAccessToken_def refreshAccessToken_start_def)
  next
    case True
    obtain b v1 where rc: "receive (send (refresh_request k v) v) = (b, v1)"
      by (cases "receive (send (refresh_request k v) v)")
    have le: "length (script v1) \<le> length (script v)"
      using receive_le [OF rc] by (simp add: send_def)
    show ?thesis
    proof (cases b)
      case None
      with that True rc le show ?thesis
        by (simp add: refreshAccessToken_def refreshAccessToken_start_def)
    next
      case (Some res)
      with that True rc have "refreshAccessToken_resume res k v1 = (a, k', v')"
        by (simp add: refreshAccessToken_def refreshAccessToken_start_def)
      with resume [of res k v1] le show ?thesis by simp
    qed
  qed
  from 2 have a: "refresh_if_expired c w = (x, c1, w1)" by simp
  from 2 have b: "receive (send (Api (request_url endpoint w1) (js_str (accessToken c1))) w1)
                    = (Some x2, w2)" by simp
  from 2 have d: "refreshAccessToken c1 w2 = (xc, c3, w3)" by simp
  have "length (script w3) \<le> length (script w2)" using d by (rule refresh)
  also have "\<dots> < length (script w1)"
    using receive_less [OF b] by (simp add: send_def)
  also have "\<dots> \<le> length (script w)"
    using a refresh [of c w x c1 w1] by (simp add: refresh_if_expired_def split: if_splits)
  finally show ?case by simp
qed

declare makeApiRequest.simps [simp del]

definition getCurrentUser :: "client \<Rightarrow> world \<Rightarrow> json outcome \<times> client \<times> world" where
  "getCurrentUser c w = makeApiRequest ''/me'' c w"

definition logout :: "client \<Rightarrow> world \<Rightarrow> client \<times> world" where
  "logout c w = clearStoredTokens c w"

section \<open>The authentication provider (lib/contexts/SpotifyAuthContext.jsx)\<close>

text \<open>The five state variables of \<open>SpotifyAuthProvider\<close>, with their initial values.\<close>

record provider_state =
  st_isAuthenticated :: bool
  st_isLoading :: bool
  st_error :: "error option"
  st_user :: "json option"
  st_accessToken :: "string option"

definition initial_state :: provider_state where
  "initial_state =
     \<lparr> st_isAuthenticated = False, st_isLoading = True, st_error = None, st_user = None,
       st_accessToken = None \<rparr>"

text \<open>
  The \<open>catch\<close> block shared by the provider's callbacks: \<open>setError(error.message)\<close>,
  \<open>setIsAuthenticated(false)\<close>, \<open>setAccessToken(null)\<close>, \<open>setUser(null)\<close>.
\<close>

definition caught :: "error \<Rightarrow> provider_state \<Rightarrow> provider_state" where
  "caught e st =
     st\<lparr>st_error := Some e, st_isAuthenticated := False, st_accessToken := None,
        st_user := None\<rparr>"

text \<open>
  The provider's \<open>refreshToken\<close>. It catches every error, so its promise is never
  rejected: the first component of the result says whether it settled.
\<close>

definition provider_refreshToken ::
  "provider_state \<Rightarrow> client \<Rightarrow> world \<Rightarrow> bool \<times> provider_state \<times> client \<times> world" where
  "provider_refreshToken st c w =
     (case refreshAccessToken c w of
        (Pending, c1, w1) \<Rightarrow> (False, st, c1, w1)
      | (Rejected e, c1, w1) \<Rightarrow> (True, caught e st, c1, w1)
      | (Fulfilled _, c1, w1) \<Rightarrow>
          (let st1 = st\<lparr>st_accessToken := getAccessToken c1\<rparr>
           in case getCurrentUser c1 w1 of
                (Pending, c2, w2) \<Rightarrow> (False, st1, c2, w2)
              | (Rejected e, c2, w2) \<Rightarrow> (True, caught e st1, c2, w2)
              | (Fulfilled userProfile, c2, w2) \<Rightarrow>
                  (True,
                   st1\<lparr>st_user := Some userProfile, st_isAuthenticated := True,
                       st_error := None\<rparr>,
                   c2, w2)))"

text \<open>
  \<open>checkAuthStatus\<close>. Nothing in its outer \<open>try\<close> block can throw (the inner \<open>catch\<close>
  handles the profile request, and \<open>refreshToken\<close> never rejects), so of the outer
  handlers only \<open>finally\<close> runs.
\<close>

definition checkAuthStatus ::
  "provider_state \<Rightarrow> client \<Rightarrow> world \<Rightarrow> bool \<times> provider_state \<times> client \<times> world" where
  "checkAuthStatus st c w =
     (let st1 = st\<lparr>st_isLoading := True\<rparr>;
          authenticated = isAuthenticated c w;
          st2 = st1\<lparr>st_isAuthenticated := authenticated\<rparr>
      in if authenticated then
           (let token = getAccessToken c;
                st3 = st2\<lparr>st_accessToken := token\<rparr>
            in case getCurrentUser c w of
                 (Pending, c1, w1) \<Rightarrow> (False, st3, c1, w1)
               | (Fulfilled userProfile, c1, w1) \<Rightarrow>
                   (True, st3\<lparr>st_user := Some userProfile, st_isLoading := False\<rparr>, c1, w1)
               | (Rejected e, c1, w1) \<Rightarrow>
                   (case provider_refreshToken st3 c1 w1 of
                      (False, st4, c2, w2) \<Rightarrow> (False, st4, c2, w2)
                    | (True, st4, c2, w2) \<Rightarrow> (True, st4\<lparr>st_isLoading := False\<rparr>, c2, w2)))
         else (True, st2\<lparr>st_isLoading := False\<rparr>, c, w))"


section \<open>The server-side callback route (app/api/auth/callback/spotify/route.js)\<close>

text \<open>
  The query of the callback request, and the response of the route: a redirect to the
  home page, with an error code in its query or with the token cookies set.
\<close>

record callback_query =
  q_code :: "string option"
  q_state :: "string option"
  q_error :: "string option"

datatype target = Home | HomeWithError string

record route_response =
  location :: target
  cookies :: "(string \<times> string option) list"

definition redirect :: "target \<Rightarrow> route_response" where
  "redirect t = \<lparr> location = t, cookies = [] \<rparr>"

text \<open>
  \<open>GET\<close>, run by the server (where \<open>window\<close> is undefined). Its \<open>catch\<close> block turns every
  error into the redirect \<open>callback_handler_error\<close>. The \<open>state\<close> parameter is read and
  tested for presence only.
\<close>

definition GET :: "callback_query \<Rightarrow> world \<Rightarrow> route_response outcome \<times> world" where
  "GET q w =
     (case validateSpotifyConfig w of
        Rejected e \<Rightarrow> (Fulfilled (redirect (HomeWithError ''callback_handler_error'')), w)
      | Pending \<Rightarrow> (Pending, w)
      | Fulfilled _ \<Rightarrow>
          if truthy (q_error q) then (Fulfilled (redirect (HomeWithError (js_str (q_error q)))), w)
          else if falsy (q_code q) \<or> falsy (q_state q)
          then (Fulfilled (redirect (HomeWithError ''missing_parameters'')), w)
          else
            (let config = getSpotifyConfig w;
                 w1 = send (Post (token config)
                        [(''grant_type'', ''authorization_code''),
                         (''code'', js_str (q_code q)),
                         (''redirect_uri'', redirectUri config),
                         (''client_id'', js_str (clientId config)),
                         (''client_secret'', js_str (clientSecret config))]) w
             in case receive w1 of
                  (None, w2) \<Rightarrow> (Pending, w2)
                | (Some Fails, w2) \<Rightarrow>
                    (Fulfilled (redirect (HomeWithError ''callback_handler_error'')), w2)
                | (Some (Responds r), w2) \<Rightarrow>
                    if \<not> ok r
                    then (Fulfilled (redirect (HomeWithError ''token_exchange_failed'')), w2)
                    else
                      (case body r of
                         NotJson \<Rightarrow>
                           (Fulfilled (redirect (HomeWithError ''callback_handler_error'')), w2)
                       | Json tokenData \<Rightarrow>
                           (Fulfilled
                              \<lparr> location = Home,
                                cookies =
                                  (''spotify_access_token'', access_token tokenData) #
                                  (if truthy (refresh_token tokenData)
                                   then [(''spotify_refresh_token'', refresh_token tokenData)]
                                   else []) \<rparr>,
                            w2))))"

section \<open>Requests in flight\<close>

text \<open>
  Several triggers of the refresh in one tick of the event loop: each trigger runs
  \<open>refreshAccessToken\<close> up to its first \<open>await\<close> before any response is handled, on the
  same client object. The timer's callback (the provider's \<open>refreshToken\<close>) and the 401
  branch of \<open>makeApiRequest\<close> both enter \<open>refreshAccessToken\<close> this way.
\<close>

fun triggers_in_one_tick :: "nat \<Rightarrow> client \<Rightarrow> world \<Rightarrow> world" where
  "triggers_in_one_tick 0 c w = w"
| "triggers_in_one_tick (Suc n) c w =
     triggers_in_one_tick n c (snd (refreshAccessToken_start c w))"

text \<open>The requests of a list that are refresh requests to the token endpoint.\<close>

definition is_refresh_request :: "request \<Rightarrow> bool" where
  "is_refresh_request rq =
     (case rq of
        Post url params \<Rightarrow>
          url = SPOTIFY_ACCOUNTS_BASE_URL @ ''/api/token'' \<and>
          map_of params ''grant_type'' = Some ''refresh_token''
      | Api url bearer \<Rightarrow> False)"

definition is_exchange_request :: "request \<Rightarrow> bool" where
  "is_exchange_request rq =
     (case rq of
        Post url params \<Rightarrow>
          url = SPOTIFY_ACCOUNTS_BASE_URL @ ''/api/token'' \<and>
          map_of params ''grant_type'' = Some ''authorization_code''
      | Api url bearer \<Rightarrow> False)"

definition is_api_request :: "request \<Rightarrow> bool" where
  "is_api_request rq = (case rq of Post url params \<Rightarrow> False | Api url bearer \<Rightarrow> True)"

text \<open>
  A refresh request that fails, seen from the client: the \<open>fetch\<close> promise rejects, the
  response's status is not in the 2xx range, or its body is no JSON. \<open>refresh_error\<close> is
  the reason the failure is reported with.
\<close>

definition request_fails :: "fetch_result \<Rightarrow> bool" where
  "request_fails x = (case x of Fails \<Rightarrow> True | Responds r \<Rightarrow> \<not> ok r \<or> body r = NotJson)"

definition refresh_error :: "fetch_result \<Rightarrow> error" where
  "refresh_error x =
     (case x of
        Fails \<Rightarrow> NetworkError
      | Responds r \<Rightarrow>
          (case body r of
             NotJson \<Rightarrow> SyntaxError
           | Json j \<Rightarrow> TokenRefreshFailed (js_or (error_description j) (error j))))"

section \<open>Concrete inputs\<close>

text \<open>
  A browser at the local development origin, with empty storage and a network that has
  nothing to answer yet; the random source delivers the bytes 0, 1, 2, ...
\<close>

definition browser :: world where
  "browser =
     \<lparr> window = True, clock = 1700000000000, env_client_id = Some ''client123'',
       env_client_secret = None, origin = ''http://localhost:3000'',
       localStorage = Map.empty, sessionStorage = Map.empty, href = None,
       crypto = (\<lambda>i. of_nat i), script = [], requests = [] \<rparr>"

text \<open>The server process that runs the route handlers.\<close>

definition server :: world where
  "server =
     \<lparr> window = False, clock = 1700000000000, env_client_id = Some ''client123'',
       env_client_secret = Some ''secret456'', origin = '''',
       localStorage = Map.empty, sessionStorage = Map.empty, href = None,
       crypto = (\<lambda>i. of_nat i), script = [], requests = [] \<rparr>"

text \<open>
  A client whose access token is good for another hour, and one whose token ran out a
  second ago; both hold a refresh token.
\<close>

definition fresh_client :: client where
  "fresh_client =
     \<lparr> accessToken = Some ''access-1'', refreshToken = Some ''refresh-1'',
       tokenExpiry = Some (Instant 1700003600000) \<rparr>"

definition stale_client :: client where
  "stale_client =
     \<lparr> accessToken = Some ''access-1'', refreshToken = Some ''refresh-1'',
       tokenExpiry = Some (Instant 1699999999000) \<rparr>"

text \<open>Responses of the catalog service.\<close>

definition empty_json :: json where
  "empty_json =
     \<lparr> access_token = None, refresh_token = None, expires_in = None, error = None,
       error_description = None, payload = '''' \<rparr>"

definition unauthorized :: response where
  "unauthorized = \<lparr> status = 401, body = Json (empty_json\<lparr>error := Some ''expired''\<rparr>) \<rparr>"

definition token_response :: "string \<Rightarrow> string option \<Rightarrow> response" where
  "token_response a r =
     \<lparr> status = 200,
       body = Json (empty_json\<lparr>access_token := Some a, refresh_token := r,
                                expires_in := Some 3600\<rparr>) \<rparr>"

definition rejected_refresh :: response where
  "rejected_refresh =
     \<lparr> status = 400, body = Json (empty_json\<lparr>error := Some ''invalid_grant''\<rparr>) \<rparr>"

definition profile_response :: response where
  "profile_response = \<lparr> status = 200, body = Json (empty_json\<lparr>payload := ''profile''\<rparr>) \<rparr>"

text \<open>
  A browser that holds a credential stored by an earlier session, expired a second ago,
  with its refresh token; the token endpoint would grant a refresh and the profile
  request would succeed.
\<close>

definition returning_browser :: world where
  "returning_browser =
     browser\<lparr> localStorage :=
                [''spotify_tokens'' \<mapsto>
                   TokensJson (Some ''access-1'') (Some ''refresh-1'')
                     (Some (Instant 1699999999000))],
              script := [Responds (token_response ''access-2'' None), Responds profile_response] \<rparr>"

text \<open>
  A browser in which the session of \<open>fresh_client\<close> is stored, and the same browser with
  a token endpoint that rejects the next request.
\<close>

definition signed_in_browser :: world where
  "signed_in_browser =
     browser\<lparr> localStorage :=
                [''spotify_tokens'' \<mapsto>
                   TokensJson (Some ''access-1'') (Some ''refresh-1'')
                     (Some (Instant 1700003600000))] \<rparr>"

definition refusing_browser :: world where
  "refusing_browser = signed_in_browser\<lparr> script := [Responds rejected_refresh] \<rparr>"

text \<open>
  Two refreshes in flight together from the signed-in browser: both requests are sent,
  then the token endpoint's rejection of the first is handled, then its grant of the
  second, whose response carries no refresh token.
\<close>

definition overlap_after_failure :: "bool outcome \<times> client \<times> world" where
  "overlap_after_failure =
     refreshAccessToken_resume (Responds rejected_refresh) fresh_client
       (triggers_in_one_tick 2 fresh_client signed_in_browser)"

definition overlap_after_grant :: "bool outcome \<times> client \<times> world" where
  "overlap_after_grant =
     refreshAccessToken_resume (Responds (token_response ''access-2'' None))
       (fst (snd overlap_after_failure)) (snd (snd overlap_after_failure))"

text \<open>
  Networks for the gateway: the profile request is answered 401 once, or twice, each
  refresh is granted, and the request after that succeeds.
\<close>

definition once_unauthorized :: world where
  "once_unauthorized =
     signed_in_browser\<lparr> script :=
       [Responds unauthorized, Responds (token_response ''access-2'' None),
        Responds profile_response] \<rparr>"

definition twice_unauthorized :: world where
  "twice_unauthorized =
     signed_in_browser\<lparr> script :=
       [Responds unauthorized, Responds (token_response ''access-2'' None),
        Responds unauthorized, Responds (token_response ''access-3'' None),
        Responds profile_response] \<rparr>"

text \<open>
  A callback whose \<open>state\<close> is not the one the login stored, the callback with the
  stored state, and a server whose token endpoint accepts the next two code exchanges.
\<close>

definition forged_callback :: callback_query where
  "forged_callback = \<lparr> q_code = Some ''code-1'', q_state = Some ''forged'', q_error = None \<rparr>"

definition matching_callback :: callback_query where
  "matching_callback =
     \<lparr> q_code = Some ''code-1'', q_state = Some ''ABCDEFGHIJKLMNOP'', q_error = None \<rparr>"

definition exchanging_server :: world where
  "exchanging_server =
     server\<lparr> script :=
       [Responds (token_response ''access-1'' (Some ''refresh-1'')),
        Responds (token_response ''access-2'' (Some ''refresh-2''))] \<rparr>"

text \<open>
  A browser that holds a pending authorization (a state and a verifier in session
  storage) and whose token endpoint would accept the code exchange.
\<close>

definition pending_browser :: world where
  "pending_browser =
     browser\<lparr> sessionStorage :=
                [''spotify_oauth_state'' \<mapsto> ''ABCDEFGHIJKLMNOP'',
                 ''spotify_code_verifier'' \<mapsto> ''verifier-1''],
              script := [Responds (token_response ''access-1'' (Some ''refresh-1''))] \<rparr>"

definition signed_out_client :: client where
  "signed_out_client = \<lparr> accessToken = None, refreshToken = None, tokenExpiry = None \<rparr>"

section \<open>Verification\<close>

subsection \<open>The PKCE generator\<close>

lemma foldl_snoc_map: "foldl (\<lambda>acc x. acc @ [f x]) a xs = a @ map f xs"
  by (induction xs arbitrary: a) auto

lemma possible_length: "length possible = 66" by (simp add: possible_def)

lemma possible_unreserved: "list_all unreserved possible"
  by (simp add: possible_def unreserved_def)

lemma generateRandomString_eq:
  "fst (generateRandomString n rng) = map (\<lambda>i. possible ! (unat (rng i) mod 66)) [0..<n]"
  by (simp add: generateRandomString_def getRandomValues_def foldl_snoc_map possible_length comp_def)

lemma generateRandomString_length: "length (fst (generateRandomString n rng)) = n"
  by (simp add: generateRandomString_eq)

lemma generateRandomString_alphabet: "list_all unreserved (fst (generateRandomString n rng))"
proof -
  have "unreserved (possible ! (unat (rng i) mod 66))" for i
  proof -
    have "unat (rng i) mod 66 < length possible" by (simp add: possible_length)
    then have "possible ! (unat (rng i) mod 66) \<in> set possible" by (rule nth_mem)
    with possible_unreserved show ?thesis by (simp add: list_all_iff)
  qed
  then show ?thesis by (simp add: generateRandomString_eq list_all_iff)
qed

lemma sextet_table:
  "list_all (\<lambda>i. url_char (b64_std ! i) = b64_url ! i \<and> url_char (b64_std ! i) \<noteq> CHR ''='') [0..<64]"
  unfolding b64_std_def b64_url_def url_char_def by code_simp

lemma sextet: "i < 64 \<Longrightarrow> url_char (b64_std ! i) = b64_url ! i \<and> b64_url ! i \<noteq> CHR ''=''"
proof -
  assume "i < 64"
  then have "i \<in> set [0..<64]" by simp
  with sextet_table
  have "url_char (b64_std ! i) = b64_url ! i \<and> url_char (b64_std ! i) \<noteq> CHR ''=''"
    unfolding list_all_iff by (rule bspec)
  then show ?thesis by auto
qed

lemma base64urlEncode_alt:
  "base64urlEncode bs = filter (\<lambda>c. c \<noteq> CHR ''='') (map url_char (btoa bs))"
  unfolding base64urlEncode_def remove_char_def replace_char_def map_map comp_def url_char_def
  by (rule refl)

lemma url_char_pad: "url_char (CHR ''='') = CHR ''=''" by (simp add: url_char_def)

lemma byte_bounds:
  fixes a b :: byte
  shows "unat a div 4 < 64" "unat a mod 4 * 16 < 64" "unat a mod 4 * 16 + unat b div 16 < 64"
    "unat b mod 16 * 4 < 64" "unat b mod 16 * 4 + unat a div 64 < 64" "unat a mod 64 < 64"
proof -
  have a: "unat a < 256" using unsigned_less [of a, where ?'a = nat] by simp
  have b: "unat b < 256" using unsigned_less [of b, where ?'a = nat] by simp
  show "unat a div 4 < 64" using a by simp
  have "unat a mod 4 < 4" by simp
  then show "unat a mod 4 * 16 < 64" by linarith
  have "unat b div 16 < 16" using b by simp
  with \<open>unat a mod 4 < 4\<close> show "unat a mod 4 * 16 + unat b div 16 < 64" by linarith
  have b16: "unat b mod 16 < 16" by simp
  then show "unat b mod 16 * 4 < 64" by linarith
  have "unat a div 64 < 4" using a by simp
  with b16 show "unat b mod 16 * 4 + unat a div 64 < 64" by linarith
  show "unat a mod 64 < 64" by simp
qed

lemma base64urlEncode_refines: "base64urlEncode bs = base64url_unpadded bs"
  unfolding base64urlEncode_alt
  by (induction bs rule: btoa.induct) (simp_all add: sextet byte_bounds url_char_pad)


text \<open>
  Claim C9. Every call of the PKCE pair generator returns a verifier of exactly 128
  characters, each of them in the unreserved URL-safe alphabet (A-Z, a-z, 0-9, '-', '.',
  '_', '~'), and a challenge that is the base64url encoding, without any '=' padding, of
  the SHA-256 digest of the verifier's bytes. The digest is the platform's
  \<open>crypto.subtle.digest\<close>, called with the algorithm name SHA-256; the random bytes are
  whatever the secure source delivers.
\<close>

theorem generatePKCEPair_contract:
  "length (fst (fst (generatePKCEPair digest rng))) = 128 \<and>
   list_all unreserved (fst (fst (generatePKCEPair digest rng))) \<and>
   snd (fst (generatePKCEPair digest rng)) =
     base64url_unpadded
       (digest ''SHA-256'' (TextEncoder_encode (fst (fst (generatePKCEPair digest rng)))))"
proof -
  obtain v r where g: "generateRandomString 128 rng = (v, r)"
    by (cases "generateRandomString 128 rng")
  have v: "v = fst (generateRandomString 128 rng)" by (simp add: g)
  have pair: "fst (generatePKCEPair digest rng) = (v, sha256 digest v)"
    by (simp add: generatePKCEPair_def g)
  have "length v = 128" unfolding v by (rule generateRandomString_length)
  moreover have "list_all unreserved v" unfolding v by (rule generateRandomString_alphabet)
  moreover have "sha256 digest v = base64url_unpadded (digest ''SHA-256'' (TextEncoder_encode v))"
    by (simp add: sha256_def base64urlEncode_refines)
  ultimately show ?thesis by (simp add: pair)
qed

subsection \<open>The authenticated-state query\<close>


lemma isAuthenticated_iff:
  "isAuthenticated c w \<longleftrightarrow>
     (\<exists>a t. accessToken c = Some a \<and> a \<noteq> [] \<and> tokenExpiry c = Some (Instant t) \<and> clock w < t)"
  by (auto simp: isAuthenticated_def truthy_def date_lt_def split: option.splits jsdate.splits)

lemma expired_not_authenticated:
  "tokenExpiry c = Some (Instant t) \<Longrightarrow> t \<le> clock w \<Longrightarrow> \<not> isAuthenticated c w"
  by (simp add: isAuthenticated_def date_lt_def)

lemma checkAuthStatus_unauthenticated:
  "\<not> isAuthenticated c w \<Longrightarrow>
   checkAuthStatus st c w = (True, st\<lparr>st_isLoading := False, st_isAuthenticated := False\<rparr>, c, w)"
  by (simp add: checkAuthStatus_def Let_def)

text \<open>
  Claim C10. In every client state, \<open>isAuthenticated()\<close> is true exactly when an access
  token is present, an expiry instant is present, and the current time is strictly before
  that expiry. A credential whose expiry has passed is therefore reported as
  unauthenticated whether or not a refresh token is held. The query is a function of the
  client's fields and the clock alone: it sends nothing, and when it answers false
  \<open>checkAuthStatus\<close> finishes with the client and the world as they were, so no refresh and
  no other request is made.
\<close>

theorem isAuthenticated_query:
  "(isAuthenticated c w \<longleftrightarrow>
      (\<exists>a t. accessToken c = Some a \<and> a \<noteq> [] \<and> tokenExpiry c = Some (Instant t) \<and> clock w < t)) \<and>
   (\<forall>t. tokenExpiry c = Some (Instant t) \<and> t \<le> clock w \<longrightarrow> \<not> isAuthenticated c w) \<and>
   (\<not> isAuthenticated c w \<longrightarrow>
      checkAuthStatus st c w = (True, st\<lparr>st_isLoading := False, st_isAuthenticated := False\<rparr>, c, w))"
  using isAuthenticated_iff [of c w] expired_not_authenticated [of c _ w]
    checkAuthStatus_unauthenticated [of c w st]
  by blast

theorem isAuthenticated_query_witness:
  "isAuthenticated fresh_client browser \<and> \<not> isAuthenticated stale_client browser \<and>
   truthy (refreshToken stale_client) \<and>
   checkAuthStatus initial_state stale_client browser =
     (True, initial_state\<lparr>st_isLoading := False, st_isAuthenticated := False\<rparr>, stale_client, browser)"
proof -
  have a: "isAuthenticated fresh_client browser"
    using isAuthenticated_query [of fresh_client browser initial_state]
    by (simp add: fresh_client_def browser_def)
  have e: "tokenExpiry stale_client = Some (Instant 1699999999000) \<and> 1699999999000 \<le> clock browser"
    by (simp add: stale_client_def browser_def)
  have b: "\<not> isAuthenticated stale_client browser"
    using isAuthenticated_query [of stale_client browser initial_state] e by blast
  have c: "checkAuthStatus initial_state stale_client browser =
     (True, initial_state\<lparr>st_isLoading := False, st_isAuthenticated := False\<rparr>, stale_client, browser)"
    using isAuthenticated_query [of stale_client browser initial_state] b by blast
  have d: "truthy (refreshToken stale_client)" by (simp add: stale_client_def truthy_def)
  from a b c d show ?thesis by simp
qed

subsection \<open>Start with a stored credential that has expired\<close>





subsection \<open>Refreshing the access token\<close>

lemma saveTokensToStorage_window: "window (snd (saveTokensToStorage c w)) = window w"
  by (simp add: saveTokensToStorage_def split: option.splits jsdate.splits)

lemma setTokens_window: "window (snd (snd (setTokens j c w))) = window w"
  using saveTokensToStorage_window [of _ w]
  by (simp add: setTokens_def Let_def split: prod.splits) (metis snd_conv)

lemma refreshAccessToken_try_window:
  "window (snd (snd (refreshAccessToken_try result c w))) = window w"
  by (simp add: refreshAccessToken_try_def setTokens_window
      split: fetch_result.splits body.splits)

lemma clearStoredTokens_cleared:
  "clearStoredTokens c w = (c', w') \<Longrightarrow>
   c' = \<lparr>accessToken = None, refreshToken = None, tokenExpiry = None\<rparr> \<and>
   (window w \<longrightarrow> localStorage w' ''spotify_tokens'' = None)"
  by (auto simp: clearStoredTokens_def)

lemma refreshAccessToken_resume_rejected:
  assumes "refreshAccessToken_resume result c w = (Rejected e, c', w')"
  shows "c' = \<lparr>accessToken = None, refreshToken = None, tokenExpiry = None\<rparr> \<and>
         (window w \<longrightarrow> localStorage w' ''spotify_tokens'' = None)"
proof -
  obtain x c1 w1 where t: "refreshAccessToken_try result c w = (x, c1, w1)"
    by (cases "refreshAccessToken_try result c w")
  have win: "window w1 = window w"
    using refreshAccessToken_try_window [of result c w] by (simp add: t)
  from assms t obtain e' where "x = Some e'" and "clearStoredTokens c1 w1 = (c', w')"
    by (cases x) (auto simp: refreshAccessToken_resume_def split: prod.splits)
  with clearStoredTokens_cleared [of c1 w1 c' w'] win show ?thesis by simp
qed

lemma refreshAccessToken_sent:
  assumes "truthy (refreshToken c)"
  shows "refreshAccessToken c w =
           (case receive (send (refresh_request c w) w) of
              (None, w2) \<Rightarrow> (Pending, c, w2)
            | (Some result, w2) \<Rightarrow> refreshAccessToken_resume result c w2)"
  using assms by (simp add: refreshAccessToken_def refreshAccessToken_start_def)

lemma receive_send_window: "receive (send rq w) = (x, w') \<Longrightarrow> window w' = window w"
  by (auto simp: receive_def send_def split: list.splits)

lemma refreshAccessToken_rejected:
  assumes "truthy (refreshToken c)" and "refreshAccessToken c w = (Rejected e, c', w')"
  shows "c' = \<lparr>accessToken = None, refreshToken = None, tokenExpiry = None\<rparr> \<and>
         (window w \<longrightarrow> localStorage w' ''spotify_tokens'' = None)"
proof -
  obtain x w2 where rc: "receive (send (refresh_request c w) w) = (x, w2)"
    by (cases "receive (send (refresh_request c w) w)")
  have win: "window w2 = window w" using rc by (rule receive_send_window)
  from assms rc obtain result where "x = Some result"
    and "refreshAccessToken_resume result c w2 = (Rejected e, c', w')"
    by (cases x) (auto simp: refreshAccessToken_sent)
  with refreshAccessToken_resume_rejected [of result c w2 e c' w'] win show ?thesis by simp
qed

lemmas concrete_defs =
  browser_def server_def fresh_client_def stale_client_def empty_json_def unauthorized_def
  token_response_def rejected_refresh_def profile_response_def returning_browser_def
  signed_in_browser_def refusing_browser_def

lemmas client_defs =
  refreshAccessToken_def refreshAccessToken_start_def refreshAccessToken_resume_def
  refreshAccessToken_try_def refresh_request_def send_def receive_def ok_def js_or_def
  js_str_def truthy_def falsy_def clearStoredTokens_def setTokens_def saveTokensToStorage_def
  new_Date_def getSpotifyConfig_def SPOTIFY_ACCOUNTS_BASE_URL_def SPOTIFY_API_BASE_URL_def

lemma refreshAccessToken_try_fails:
  "request_fails x \<Longrightarrow> refreshAccessToken_try x c w = (Some (refresh_error x), c, w)"
  by (auto simp: refreshAccessToken_try_def request_fails_def refresh_error_def
      split: fetch_result.splits body.splits)

lemma refreshAccessToken_resume_fails:
  "request_fails x \<Longrightarrow>
   refreshAccessToken_resume x c w =
     (Rejected (refresh_error x),
      \<lparr>accessToken = None, refreshToken = None, tokenExpiry = None\<rparr>,
      if window w then w\<lparr>localStorage := (localStorage w)(''spotify_tokens'' := None)\<rparr> else w)"
  by (simp add: refreshAccessToken_resume_def refreshAccessToken_try_fails clearStoredTokens_def)

lemma refreshAccessToken_fails:
  assumes "request_fails x" and "truthy (refreshToken c)" and "script w = x # rest"
  shows "refreshAccessToken c w =
     (Rejected (refresh_error x),
      \<lparr>accessToken = None, refreshToken = None, tokenExpiry = None\<rparr>,
      if window w
      then w\<lparr>requests := requests w @ [refresh_request c w], script := rest,
             localStorage := (localStorage w)(''spotify_tokens'' := None)\<rparr>
      else w\<lparr>requests := requests w @ [refresh_request c w], script := rest\<rparr>)"
proof -
  let ?w2 = "w\<lparr>requests := requests w @ [refresh_request c w], script := rest\<rparr>"
  have rc: "receive (send (refresh_request c w) w) = (Some x, ?w2)"
    using assms(3) by (simp add: receive_def send_def)
  have "refreshAccessToken c w = refreshAccessToken_resume x c ?w2"
    using assms(2) rc by (simp add: refreshAccessToken_sent)
  then show ?thesis
    using assms(1) by (simp add: refreshAccessToken_resume_fails)
qed

text \<open>
  Claim C7, as the code has it. Whenever the request of a refresh fails at the token
  endpoint (the \<open>fetch\<close> rejects, the status is not ok, or the body is no JSON), handling
  that failure clears the client's three credential fields and removes the stored
  credential from the browser's durable store, whatever the client and the store held
  at that moment, and the refresh rejects with the failure as its reason. A call of the
  refresh that holds a refresh token and has no other operation between its request and
  that answer therefore ends with the credential cleared in memory and in the store,
  and the provider's \<open>refreshToken\<close> settles in the state that is not authenticated,
  carries the error as its reason, and holds neither token nor user.
\<close>

theorem failed_refresh_request_clears_credential:
  assumes "request_fails x"
  shows "refreshAccessToken_resume x c w =
           (Rejected (refresh_error x),
            \<lparr>accessToken = None, refreshToken = None, tokenExpiry = None\<rparr>,
            if window w then w\<lparr>localStorage := (localStorage w)(''spotify_tokens'' := None)\<rparr>
            else w) \<and>
         (truthy (refreshToken c) \<and> script w = x # rest \<longrightarrow>
            refreshAccessToken c w =
              (Rejected (refresh_error x),
               \<lparr>accessToken = None, refreshToken = None, tokenExpiry = None\<rparr>,
               if window w
               then w\<lparr>requests := requests w @ [refresh_request c w], script := rest,
                      localStorage := (localStorage w)(''spotify_tokens'' := None)\<rparr>
               else w\<lparr>requests := requests w @ [refresh_request c w], script := rest\<rparr>) \<and>
            provider_refreshToken st c w =
              (True,
               st\<lparr>st_error := Some (refresh_error x), st_isAuthenticated := False,
                  st_accessToken := None, st_user := None\<rparr>,
               \<lparr>accessToken = None, refreshToken = None, tokenExpiry = None\<rparr>,
               if window w
               then w\<lparr>requests := requests w @ [refresh_request c w], script := rest,
                      localStorage := (localStorage w)(''spotify_tokens'' := None)\<rparr>
               else w\<lparr>requests := requests w @ [refresh_request c w], script := rest\<rparr>))"
proof (intro conjI impI)
  show "refreshAccessToken_resume x c w =
           (Rejected (refresh_error x),
            \<lparr>accessToken = None, refreshToken = None, tokenExpiry = None\<rparr>,
            if window w then w\<lparr>localStorage := (localStorage w)(''spotify_tokens'' := None)\<rparr>
            else w)"
    using assms by (rule refreshAccessToken_resume_fails)
next
  assume h: "truthy (refreshToken c) \<and> script w = x # rest"
  then have t: "truthy (refreshToken c)" and sc: "script w = x # rest" by simp_all
  note r = refreshAccessToken_fails [OF assms t sc]
  show "refreshAccessToken c w =
              (Rejected (refresh_error x),
               \<lparr>accessToken = None, refreshToken = None, tokenExpiry = None\<rparr>,
               if window w
               then w\<lparr>requests := requests w @ [refresh_request c w], script := rest,
                      localStorage := (localStorage w)(''spotify_tokens'' := None)\<rparr>
               else w\<lparr>requests := requests w @ [refresh_request c w], script := rest\<rparr>)"
    by (rule r)
  show "provider_refreshToken st c w =
              (True,
               st\<lparr>st_error := Some (refresh_error x), st_isAuthenticated := False,
                  st_accessToken := None, st_user := None\<rparr>,
               \<lparr>accessToken = None, refreshToken = None, tokenExpiry = None\<rparr>,
               if window w
               then w\<lparr>requests := requests w @ [refresh_request c w], script := rest,
                      localStorage := (localStorage w)(''spotify_tokens'' := None)\<rparr>
               else w\<lparr>requests := requests w @ [refresh_request c w], script := rest\<rparr>)"
    by (simp add: provider_refreshToken_def r caught_def)
qed

theorem failed_refresh_request_clears_credential_witness:
  "request_fails (Responds rejected_refresh) \<and>
   truthy (refreshToken fresh_client) \<and>
   script refusing_browser = Responds rejected_refresh # [] \<and>
   window refusing_browser \<and>
   localStorage refusing_browser ''spotify_tokens'' \<noteq> None \<and>
   fst (refreshAccessToken fresh_client refusing_browser) =
     Rejected (TokenRefreshFailed (Some ''invalid_grant'')) \<and>
   fst (snd (refreshAccessToken fresh_client refusing_browser)) =
     \<lparr>accessToken = None, refreshToken = None, tokenExpiry = None\<rparr> \<and>
   localStorage (snd (snd (refreshAccessToken fresh_client refusing_browser))) ''spotify_tokens''
     = None \<and>
   fst (snd (provider_refreshToken (initial_state\<lparr>st_isAuthenticated := True\<rparr>) fresh_client
               refusing_browser)) =
     \<lparr> st_isAuthenticated = False, st_isLoading = True,
       st_error = Some (TokenRefreshFailed (Some ''invalid_grant'')), st_user = None,
       st_accessToken = None \<rparr>"
proof -
  have 0: "request_fails (Responds rejected_refresh)"
    by (simp add: request_fails_def rejected_refresh_def ok_def)
  have 1: "truthy (refreshToken fresh_client)" by (simp add: fresh_client_def truthy_def)
  have 2: "script refusing_browser = Responds rejected_refresh # []"
    by (simp add: refusing_browser_def)
  have w: "window refusing_browser" "localStorage refusing_browser ''spotify_tokens'' \<noteq> None"
    by (simp_all add: concrete_defs)
  have e: "refresh_error (Responds rejected_refresh) = TokenRefreshFailed (Some ''invalid_grant'')"
    by (simp add: refresh_error_def rejected_refresh_def empty_json_def js_or_def truthy_def)
  note T = failed_refresh_request_clears_credential [OF 0,
      where c = fresh_client and w = refusing_browser and rest = "[]"
        and st = "initial_state\<lparr>st_isAuthenticated := True\<rparr>",
      THEN conjunct2, THEN mp, OF conjI, OF 1 2]
  from T [THEN conjunct1] T [THEN conjunct2] 0 1 2 w e
  show ?thesis by (simp add: initial_state_def)
qed

text \<open>
  Claim C7 as stated also says that no reachable state has a partial credential left by
  a failed refresh. With two refreshes in flight together, the failure of the first
  clears the credential; the second, granted afterwards with a response that carries
  no refresh token, then stores a credential made of the new access token and expiry
  and no refresh token, in memory and in the durable store.
\<close>

theorem overlapping_refresh_counterexample:
  "fst overlap_after_failure = Rejected (TokenRefreshFailed (Some ''invalid_grant'')) \<and>
   fst (snd overlap_after_failure) =
     \<lparr>accessToken = None, refreshToken = None, tokenExpiry = None\<rparr> \<and>
   fst overlap_after_grant = Fulfilled True \<and>
   fst (snd overlap_after_grant) =
     \<lparr>accessToken = Some ''access-2'', refreshToken = None,
       tokenExpiry = Some (Instant 1700003600000)\<rparr> \<and>
   localStorage (snd (snd overlap_after_grant)) ''spotify_tokens'' =
     Some (TokensJson (Some ''access-2'') None (Some (Instant 1700003600000)))"
  by (simp add: overlap_after_grant_def overlap_after_failure_def numeral_2_eq_2
      client_defs concrete_defs)

lemma setTokens_fields:
  assumes "setTokens j c w = (x, c', w')"
  shows "accessToken c' = access_token j" "refreshToken c' = refresh_token j"
    "x = None \<Longrightarrow> window w \<Longrightarrow> truthy (access_token j) \<Longrightarrow>
       localStorage w' ''spotify_tokens'' =
         Some (TokensJson (accessToken c') (refreshToken c') (tokenExpiry c'))"
  using assms
  by (auto simp: setTokens_def saveTokensToStorage_def Let_def
      split: prod.splits if_splits option.splits jsdate.splits)

lemma refreshAccessToken_fulfilled:
  assumes "refreshAccessToken c w = (Fulfilled b, c', w')"
    and "script w = Responds r # rest" and "body r = Json tokens"
  shows "setTokens (tokens\<lparr>refresh_token := js_or (refresh_token tokens) (refreshToken c)\<rparr>) c
           (w\<lparr>requests := requests w @ [refresh_request c w], script := rest\<rparr>) = (None, c', w')"
proof -
  have t: "truthy (refreshToken c)"
    using assms(1) by (auto simp: refreshAccessToken_def refreshAccessToken_start_def split: if_splits)
  let ?w2 = "w\<lparr>requests := requests w @ [refresh_request c w], script := rest\<rparr>"
  have rc: "receive (send (refresh_request c w) w) = (Some (Responds r), ?w2)"
    using assms(2) by (simp add: receive_def send_def)
  have "refreshAccessToken_resume (Responds r) c ?w2 = (Fulfilled b, c', w')"
    using assms(1) t rc by (simp add: refreshAccessToken_sent)
  then have "refreshAccessToken_try (Responds r) c ?w2 = (None, c', w')"
    by (auto simp: refreshAccessToken_resume_def split: prod.splits option.splits)
  then show ?thesis
    using assms(3) by (auto simp: refreshAccessToken_try_def split: if_splits)
qed

lemma refreshAccessToken_resume_fulfilled:
  assumes "refreshAccessToken_resume (Responds r) c w = (Fulfilled b, c', w')"
    and "body r = Json tokens"
  shows "setTokens (tokens\<lparr>refresh_token := js_or (refresh_token tokens) (refreshToken c)\<rparr>) c w
           = (None, c', w')"
proof -
  from assms(1) have "refreshAccessToken_try (Responds r) c w = (None, c', w')"
    by (auto simp: refreshAccessToken_resume_def split: prod.splits option.splits)
  then show ?thesis
    using assms(2) by (auto simp: refreshAccessToken_try_def split: if_splits)
qed

lemma setTokens_refresh_rule:
  assumes "setTokens (tokens\<lparr>refresh_token := js_or (refresh_token tokens) prior\<rparr>) c w
             = (None, c', w')"
  shows "refreshToken c' = js_or (refresh_token tokens) prior \<and>
         (refresh_token tokens = None \<longrightarrow> refreshToken c' = prior) \<and>
         (\<forall>t. refresh_token tokens = Some t \<and> t \<noteq> [] \<longrightarrow> refreshToken c' = Some t) \<and>
         accessToken c' = access_token tokens \<and>
         (window w \<and> truthy (access_token tokens) \<longrightarrow>
            localStorage w' ''spotify_tokens'' =
              Some (TokensJson (accessToken c') (refreshToken c') (tokenExpiry c')))"
proof -
  have r: "refreshToken c' = js_or (refresh_token tokens) prior"
    using setTokens_fields(2) [OF assms] by simp
  have a: "accessToken c' = access_token tokens"
    using setTokens_fields(1) [OF assms] by simp
  have st: "window w \<and> truthy (access_token tokens) \<longrightarrow>
            localStorage w' ''spotify_tokens'' =
              Some (TokensJson (accessToken c') (refreshToken c') (tokenExpiry c'))"
    using setTokens_fields(3) [OF assms] by simp
  from r have n: "refresh_token tokens = None \<longrightarrow> refreshToken c' = prior"
    by (simp add: js_or_def truthy_def)
  from r have t: "\<forall>t. refresh_token tokens = Some t \<and> t \<noteq> [] \<longrightarrow> refreshToken c' = Some t"
    by (simp add: js_or_def truthy_def)
  from r n t a st show ?thesis by (intro conjI)
qed

lemma refreshAccessToken_resume_granted:
  assumes "ok r" and "body r = Json tokens" and "expires_in tokens = Some s"
    and "\<bar>clock w + s * 1000\<bar> \<le> 8640000000000000"
  shows "fst (refreshAccessToken_resume (Responds r) c w) = Fulfilled True"
  using assms
  by (simp add: refreshAccessToken_resume_def refreshAccessToken_try_def setTokens_def
      saveTokensToStorage_def new_Date_def Let_def)

lemma refreshAccessToken_granted:
  assumes "ok r" and "body r = Json tokens" and "expires_in tokens = Some s"
    and "\<bar>clock w + s * 1000\<bar> \<le> 8640000000000000"
    and "truthy (refreshToken c)" and "script w = Responds r # rest"
  shows "fst (refreshAccessToken c w) = Fulfilled True"
proof -
  let ?w2 = "w\<lparr>requests := requests w @ [refresh_request c w], script := rest\<rparr>"
  have rc: "receive (send (refresh_request c w) w) = (Some (Responds r), ?w2)"
    using assms(6) by (simp add: receive_def send_def)
  have "refreshAccessToken c w = refreshAccessToken_resume (Responds r) c ?w2"
    using assms(5) rc by (simp add: refreshAccessToken_sent)
  moreover have "\<bar>clock ?w2 + s * 1000\<bar> \<le> 8640000000000000" using assms(4) by simp
  ultimately show ?thesis
    using refreshAccessToken_resume_granted [OF assms(1,2,3), of ?w2 c] by simp
qed

text \<open>
  Claim C8, as the code has it. The code decides the refresh token of the new credential
  with \<open>tokens.refresh_token || this.refreshToken\<close>, evaluated when the response is handled,
  after the \<open>await\<close>. After every successful refresh the new credential's refresh token
  is therefore the response's when the response carries one (a non-empty string), and
  otherwise the refresh token the client holds at the moment the response is handled.
  For a call of the refresh with no other operation between its request and its
  response, that is the prior refresh token, unchanged. The access token is the
  response's, and the copy written to the durable store carries the same values. A
  response with an ok status, a JSON body and a lifetime in \<open>expires_in\<close> makes the refresh
  succeed.
\<close>

theorem refresh_token_of_refreshed_credential:
  assumes "body r = Json tokens"
  shows "(\<forall>b c' w'. refreshAccessToken_resume (Responds r) c w = (Fulfilled b, c', w') \<longrightarrow>
            refreshToken c' = js_or (refresh_token tokens) (refreshToken c) \<and>
            (refresh_token tokens = None \<longrightarrow> refreshToken c' = refreshToken c) \<and>
            (\<forall>t. refresh_token tokens = Some t \<and> t \<noteq> [] \<longrightarrow> refreshToken c' = Some t) \<and>
            accessToken c' = access_token tokens \<and>
            (window w \<and> truthy (access_token tokens) \<longrightarrow>
               localStorage w' ''spotify_tokens'' =
                 Some (TokensJson (accessToken c') (refreshToken c') (tokenExpiry c')))) \<and>
         (\<forall>b c' w' rest.
            script w = Responds r # rest \<and> refreshAccessToken c w = (Fulfilled b, c', w') \<longrightarrow>
            refreshToken c' = js_or (refresh_token tokens) (refreshToken c) \<and>
            (refresh_token tokens = None \<longrightarrow> refreshToken c' = refreshToken c) \<and>
            (\<forall>t. refresh_token tokens = Some t \<and> t \<noteq> [] \<longrightarrow> refreshToken c' = Some t) \<and>
            accessToken c' = access_token tokens \<and>
            (window w \<and> truthy (access_token tokens) \<longrightarrow>
               localStorage w' ''spotify_tokens'' =
                 Some (TokensJson (accessToken c') (refreshToken c') (tokenExpiry c')))) \<and>
         (\<forall>s rest.
            ok r \<and> expires_in tokens = Some s \<and> \<bar>clock w + s * 1000\<bar> \<le> 8640000000000000 \<longrightarrow>
            fst (refreshAccessToken_resume (Responds r) c w) = Fulfilled True \<and>
            (truthy (refreshToken c) \<and> script w = Responds r # rest \<longrightarrow>
               fst (refreshAccessToken c w) = Fulfilled True))"
proof -
  have A: "\<forall>b c' w'. refreshAccessToken_resume (Responds r) c w = (Fulfilled b, c', w') \<longrightarrow>
            refreshToken c' = js_or (refresh_token tokens) (refreshToken c) \<and>
            (refresh_token tokens = None \<longrightarrow> refreshToken c' = refreshToken c) \<and>
            (\<forall>t. refresh_token tokens = Some t \<and> t \<noteq> [] \<longrightarrow> refreshToken c' = Some t) \<and>
            accessToken c' = access_token tokens \<and>
            (window w \<and> truthy (access_token tokens) \<longrightarrow>
               localStorage w' ''spotify_tokens'' =
                 Some (TokensJson (accessToken c') (refreshToken c') (tokenExpiry c')))"
  proof (intro allI impI)
    fix b c' w'
    assume "refreshAccessToken_resume (Responds r) c w = (Fulfilled b, c', w')"
    then have "setTokens (tokens\<lparr>refresh_token := js_or (refresh_token tokens) (refreshToken c)\<rparr>)
                 c w = (None, c', w')"
      using assms by (rule refreshAccessToken_resume_fulfilled)
    then show "refreshToken c' = js_or (refresh_token tokens) (refreshToken c) \<and>
            (refresh_token tokens = None \<longrightarrow> refreshToken c' = refreshToken c) \<and>
            (\<forall>t. refresh_token tokens = Some t \<and> t \<noteq> [] \<longrightarrow> refreshToken c' = Some t) \<and>
            accessToken c' = access_token tokens \<and>
            (window w \<and> truthy (access_token tokens) \<longrightarrow>
               localStorage w' ''spotify_tokens'' =
                 Some (TokensJson (accessToken c') (refreshToken c') (tokenExpiry c')))"
      by (rule setTokens_refresh_rule)
  qed
  have B: "\<forall>b c' w' rest.
            script w = Responds r # rest \<and> refreshAccessToken c w = (Fulfilled b, c', w') \<longrightarrow>
            refreshToken c' = js_or (refresh_token tokens) (refreshToken c) \<and>
            (refresh_token tokens = None \<longrightarrow> refreshToken c' = refreshToken c) \<and>
            (\<forall>t. refresh_token tokens = Some t \<and> t \<noteq> [] \<longrightarrow> refreshToken c' = Some t) \<and>
            accessToken c' = access_token tokens \<and>
            (window w \<and> truthy (access_token tokens) \<longrightarrow>
               localStorage w' ''spotify_tokens'' =
                 Some (TokensJson (accessToken c') (refreshToken c') (tokenExpiry c')))"
  proof (intro allI impI)
    fix b c' w' rest
    assume "script w = Responds r # rest \<and> refreshAccessToken c w = (Fulfilled b, c', w')"
    then have sc: "script w = Responds r # rest"
      and f: "refreshAccessToken c w = (Fulfilled b, c', w')" by simp_all
    have "setTokens (tokens\<lparr>refresh_token := js_or (refresh_token tokens) (refreshToken c)\<rparr>) c
             (w\<lparr>requests := requests w @ [refresh_request c w], script := rest\<rparr>) = (None, c', w')"
      using f sc assms by (rule refreshAccessToken_fulfilled)
    from setTokens_refresh_rule [OF this]
    show "refreshToken c' = js_or (refresh_token tokens) (refreshToken c) \<and>
            (refresh_token tokens = None \<longrightarrow> refreshToken c' = refreshToken c) \<and>
            (\<forall>t. refresh_token tokens = Some t \<and> t \<noteq> [] \<longrightarrow> refreshToken c' = Some t) \<and>
            accessToken c' = access_token tokens \<and>
            (window w \<and> truthy (access_token tokens) \<longrightarrow>
               localStorage w' ''spotify_tokens'' =
                 Some (TokensJson (accessToken c') (refreshToken c') (tokenExpiry c')))"
      by (simp add: js_or_def truthy_def)
  qed
  have C: "\<forall>s rest.
            ok r \<and> expires_in tokens = Some s \<and> \<bar>clock w + s * 1000\<bar> \<le> 8640000000000000 \<longrightarrow>
            fst (refreshAccessToken_resume (Responds r) c w) = Fulfilled True \<and>
            (truthy (refreshToken c) \<and> script w = Responds r # rest \<longrightarrow>
               fst (refreshAccessToken c w) = Fulfilled True)"
  proof (intro allI impI conjI)
    fix s rest
    assume h: "ok r \<and> expires_in tokens = Some s \<and> \<bar>clock w + s * 1000\<bar> \<le> 8640000000000000"
    then show "fst (refreshAccessToken_resume (Responds r) c w) = Fulfilled True"
      using assms refreshAccessToken_resume_granted [of r tokens s w c] by simp
    assume "truthy (refreshToken c) \<and> script w = Responds r # rest"
    with h show "fst (refreshAccessToken c w) = Fulfilled True"
      using assms refreshAccessToken_granted [of r tokens s w c rest] by simp
  qed
  show ?thesis by (rule conjI [OF A conjI [OF B C]])
qed

theorem refresh_token_of_refreshed_credential_witness:
  "fst (refreshAccessToken fresh_client
          (signed_in_browser\<lparr>script := [Responds (token_response ''access-2'' None)]\<rparr>))
     = Fulfilled True \<and>
   refreshToken (fst (snd (refreshAccessToken fresh_client
          (signed_in_browser\<lparr>script := [Responds (token_response ''access-2'' None)]\<rparr>))))
     = Some ''refresh-1'' \<and>
   fst (refreshAccessToken fresh_client
          (signed_in_browser\<lparr>script := [Responds (token_response ''access-3'' (Some ''refresh-2''))]\<rparr>))
     = Fulfilled True \<and>
   refreshToken (fst (snd (refreshAccessToken fresh_client
          (signed_in_browser\<lparr>script := [Responds (token_response ''access-3'' (Some ''refresh-2''))]\<rparr>))))
     = Some ''refresh-2'' \<and>
   localStorage (snd (snd (refreshAccessToken fresh_client
          (signed_in_browser\<lparr>script := [Responds (token_response ''access-3'' (Some ''refresh-2''))]\<rparr>))))
       ''spotify_tokens''
     = Some (TokensJson (Some ''access-3'') (Some ''refresh-2'') (Some (Instant 1700003600000)))"
proof -
  let ?w1 = "signed_in_browser\<lparr>script := [Responds (token_response ''access-2'' None)]\<rparr>"
  let ?w2 = "signed_in_browser\<lparr>script := [Responds (token_response ''access-3'' (Some ''refresh-2''))]\<rparr>"
  let ?r1 = "refreshAccessToken fresh_client ?w1"
  let ?r2 = "refreshAccessToken fresh_client ?w2"
  let ?j1 = "empty_json\<lparr>access_token := Some ''access-2'', refresh_token := None, expires_in := Some 3600\<rparr>"
  let ?j2 = "empty_json\<lparr>access_token := Some ''access-3'', refresh_token := Some ''refresh-2'', expires_in := Some 3600\<rparr>"
  have b1: "body (token_response ''access-2'' None) = Json ?j1" by (simp add: token_response_def)
  have b2: "body (token_response ''access-3'' (Some ''refresh-2'')) = Json ?j2"
    by (simp add: token_response_def)
  have s1: "script ?w1 = Responds (token_response ''access-2'' None) # []" by simp
  have s2: "script ?w2 = Responds (token_response ''access-3'' (Some ''refresh-2'')) # []" by simp
  have t: "truthy (refreshToken fresh_client)" by (simp add: fresh_client_def truthy_def)
  have g1: "ok (token_response ''access-2'' None) \<and> expires_in ?j1 = Some 3600 \<and>
            \<bar>clock ?w1 + 3600 * 1000\<bar> \<le> 8640000000000000"
    by (simp add: token_response_def ok_def concrete_defs)
  have g2: "ok (token_response ''access-3'' (Some ''refresh-2'')) \<and> expires_in ?j2 = Some 3600 \<and>
            \<bar>clock ?w2 + 3600 * 1000\<bar> \<le> 8640000000000000"
    by (simp add: token_response_def ok_def concrete_defs)
  note T1 = refresh_token_of_refreshed_credential [OF b1, where c = fresh_client and w = ?w1]
  note T2 = refresh_token_of_refreshed_credential [OF b2, where c = fresh_client and w = ?w2]
  have f1: "fst ?r1 = Fulfilled True"
    by (rule T1 [THEN conjunct2, THEN conjunct2, THEN spec, THEN spec, THEN mp, OF g1,
          THEN conjunct2, THEN mp, OF conjI, OF t s1])
  have f2: "fst ?r2 = Fulfilled True"
    by (rule T2 [THEN conjunct2, THEN conjunct2, THEN spec, THEN spec, THEN mp, OF g2,
          THEN conjunct2, THEN mp, OF conjI, OF t s2])
  from f1 have e1: "?r1 = (Fulfilled True, fst (snd ?r1), snd (snd ?r1))" by (metis prod.collapse)
  from f2 have e2: "?r2 = (Fulfilled True, fst (snd ?r2), snd (snd ?r2))" by (metis prod.collapse)
  have t2: "tokenExpiry (fst (snd ?r2)) = Some (Instant 1700003600000)"
    by (simp add: client_defs concrete_defs)
  have w2: "window ?w2" by (simp add: concrete_defs)
  from T1 [THEN conjunct2, THEN conjunct1, THEN spec, THEN spec, THEN spec, THEN spec,
          THEN mp, OF conjI, OF s1 e1]
  have k1: "refreshToken (fst (snd ?r1)) = Some ''refresh-1''"
    by (simp add: fresh_client_def js_or_def truthy_def)
  from T2 [THEN conjunct2, THEN conjunct1, THEN spec, THEN spec, THEN spec, THEN spec,
          THEN mp, OF conjI, OF s2 e2] w2 t2
  have k2: "refreshToken (fst (snd ?r2)) = Some ''refresh-2''"
    and k3: "localStorage (snd (snd ?r2)) ''spotify_tokens'' =
      Some (TokensJson (Some ''access-3'') (Some ''refresh-2'') (Some (Instant 1700003600000)))"
    by (simp_all add: js_or_def truthy_def)
  from f1 k1 f2 k2 k3 show ?thesis by simp
qed

text \<open>
  Claim C8 as stated says that a successful refresh whose response omits the refresh
  token keeps the prior one. With two refreshes in flight together, both sent with the
  refresh token \<open>refresh-1\<close>, the failure of the first clears the client before the
  second response is handled; the second refresh succeeds on a response without a
  refresh token, and the new credential has no refresh token.
\<close>

theorem overlapped_refresh_loses_refresh_token_counterexample:
  "refreshToken fresh_client = Some ''refresh-1'' \<and>
   requests (snd (snd overlap_after_grant)) =
     [Post ''https://accounts.spotify.com/api/token''
        [(''grant_type'', ''refresh_token''), (''refresh_token'', ''refresh-1''),
         (''client_id'', ''client123'')],
      Post ''https://accounts.spotify.com/api/token''
        [(''grant_type'', ''refresh_token''), (''refresh_token'', ''refresh-1''),
         (''client_id'', ''client123'')]] \<and>
   refresh_token
     (empty_json\<lparr>access_token := Some ''access-2'', refresh_token := None,
                   expires_in := Some 3600\<rparr>) = None \<and>
   body (token_response ''access-2'' None) =
     Json (empty_json\<lparr>access_token := Some ''access-2'', refresh_token := None,
                        expires_in := Some 3600\<rparr>) \<and>
   fst overlap_after_grant = Fulfilled True \<and>
   refreshToken (fst (snd overlap_after_grant)) = None"
  by (simp add: overlap_after_grant_def overlap_after_failure_def numeral_2_eq_2
      client_defs concrete_defs)

subsection \<open>The request gateway\<close>

lemma makeApiRequest_answered:
  assumes "refresh_if_expired c w = (Fulfilled b0, c1, w1)" and "truthy (accessToken c1)"
    and "script w1 = Responds r # rest"
  shows "makeApiRequest ep c w =
     (let w2 = w1\<lparr>requests := requests w1 @ [Api (request_url ep w1) (js_str (accessToken c1))],
                   script := rest\<rparr>
      in if status r = 401 then
           (if truthy (refreshToken c1) then
              (case refreshAccessToken c1 w2 of
                 (Rejected e, c3, w3) \<Rightarrow> (Rejected e, c3, w3)
               | (Pending, c3, w3) \<Rightarrow> (Pending, c3, w3)
               | (Fulfilled _, c3, w3) \<Rightarrow> makeApiRequest ep c3 w3)
            else (let (c3, w3) = clearStoredTokens c1 w2 in (Rejected AuthenticationRequired, c3, w3)))
         else if \<not> ok r then (Rejected (SpotifyApiError (status r)), c1, w2)
         else (case body r of
                 NotJson \<Rightarrow> (Rejected SyntaxError, c1, w2)
               | Json j \<Rightarrow> (Fulfilled j, c1, w2)))"
  using assms
  by (subst makeApiRequest.simps) (simp add: receive_def send_def Let_def)

text \<open>
  Claim C2, as the code has it. Take a call through the gateway that gets as far as
  sending its request (any refresh of an expired token before it has succeeded, and an
  access token is present) and whose request is answered with status 401. Without a
  refresh token the gateway clears the credential and fails with the
  authentication-required error, with no refresh and no retry. With a refresh token it
  runs one refresh; if that refresh fails, the refresh's error is what the caller gets;
  if it succeeds, the gateway calls itself again with the same arguments on the
  refreshed client, so that a 401 answer to the retried call is handled in the same way
  again (another refresh, another call) and is not surfaced to the caller.
\<close>

theorem makeApiRequest_on_401:
  assumes "refresh_if_expired c w = (Fulfilled b0, c1, w1)" and "truthy (accessToken c1)"
    and "script w1 = Responds r # rest" and "status r = 401"
    and "w2 = w1\<lparr>requests := requests w1 @ [Api (request_url ep w1) (js_str (accessToken c1))],
                   script := rest\<rparr>"
  shows "(\<not> truthy (refreshToken c1) \<longrightarrow>
            makeApiRequest ep c w =
              (Rejected AuthenticationRequired, fst (clearStoredTokens c1 w2),
               snd (clearStoredTokens c1 w2))) \<and>
         (truthy (refreshToken c1) \<longrightarrow>
            (\<forall>e c' w'. refreshAccessToken c1 w2 = (Rejected e, c', w') \<longrightarrow>
               makeApiRequest ep c w = (Rejected e, c', w')) \<and>
            (\<forall>b c' w'. refreshAccessToken c1 w2 = (Fulfilled b, c', w') \<longrightarrow>
               makeApiRequest ep c w = makeApiRequest ep c' w'))"
  using makeApiRequest_answered [OF assms(1,2,3), of ep] assms(4,5)
  by (auto simp: Let_def split: prod.splits)

lemmas gateway_defs =
  refresh_if_expired_def token_expired_def date_ge_def request_url_def

lemmas request_kinds =
  is_api_request_def is_refresh_request_def is_exchange_request_def

theorem makeApiRequest_on_401_witness:
  "refresh_if_expired fresh_client once_unauthorized =
     (Fulfilled True, fresh_client, once_unauthorized) \<and>
   truthy (accessToken fresh_client) \<and> truthy (refreshToken fresh_client) \<and>
   script once_unauthorized =
     Responds unauthorized #
       [Responds (token_response ''access-2'' None), Responds profile_response] \<and>
   status unauthorized = 401 \<and>
   fst (makeApiRequest ''/me'' fresh_client once_unauthorized) =
     Fulfilled (empty_json\<lparr>payload := ''profile''\<rparr>) \<and>
   requests (snd (snd (makeApiRequest ''/me'' fresh_client once_unauthorized))) =
     [Api ''https://api.spotify.com/v1/me'' ''access-1'',
      Post ''https://accounts.spotify.com/api/token''
        [(''grant_type'', ''refresh_token''), (''refresh_token'', ''refresh-1''),
         (''client_id'', ''client123'')],
      Api ''https://api.spotify.com/v1/me'' ''access-2'']"
proof -
  let ?rest = "[Responds (token_response ''access-2'' None), Responds profile_response]"
  let ?w2 = "once_unauthorized\<lparr>requests := requests once_unauthorized @
                 [Api (request_url ''/me'' once_unauthorized) (js_str (accessToken fresh_client))],
               script := ?rest\<rparr>"
  let ?R = "refreshAccessToken fresh_client ?w2"
  have 1: "refresh_if_expired fresh_client once_unauthorized =
             (Fulfilled True, fresh_client, once_unauthorized)"
    by (simp add: gateway_defs concrete_defs once_unauthorized_def)
  have 2: "truthy (accessToken fresh_client)" by (simp add: fresh_client_def truthy_def)
  have 3: "script once_unauthorized = Responds unauthorized # ?rest"
    by (simp add: once_unauthorized_def)
  have 4: "status unauthorized = 401" by (simp add: unauthorized_def)
  have 5: "truthy (refreshToken fresh_client)" by (simp add: fresh_client_def truthy_def)
  have "fst ?R = Fulfilled True"
    by (simp add: client_defs concrete_defs once_unauthorized_def)
  then have 6: "?R = (Fulfilled True, fst (snd ?R), snd (snd ?R))" by (metis prod.collapse)
  have step: "makeApiRequest ''/me'' fresh_client once_unauthorized =
          makeApiRequest ''/me'' (fst (snd ?R)) (snd (snd ?R))"
    by (rule makeApiRequest_on_401 [OF 1 2 3 4 refl, THEN conjunct2, THEN mp, OF 5,
          THEN conjunct2, THEN spec, THEN spec, THEN spec, THEN mp, OF 6])
  have "fst (makeApiRequest ''/me'' (fst (snd ?R)) (snd (snd ?R))) =
               Fulfilled (empty_json\<lparr>payload := ''profile''\<rparr>) \<and>
             requests (snd (snd (makeApiRequest ''/me'' (fst (snd ?R)) (snd (snd ?R))))) =
               [Api ''https://api.spotify.com/v1/me'' ''access-1'',
                Post ''https://accounts.spotify.com/api/token''
                  [(''grant_type'', ''refresh_token''), (''refresh_token'', ''refresh-1''),
                   (''client_id'', ''client123'')],
                Api ''https://api.spotify.com/v1/me'' ''access-2'']"
    by (simp add: makeApiRequest.simps gateway_defs client_defs concrete_defs
        once_unauthorized_def)
  then have "fst (makeApiRequest ''/me'' fresh_client once_unauthorized) =
               Fulfilled (empty_json\<lparr>payload := ''profile''\<rparr>) \<and>
             requests (snd (snd (makeApiRequest ''/me'' fresh_client once_unauthorized))) =
               [Api ''https://api.spotify.com/v1/me'' ''access-1'',
                Post ''https://accounts.spotify.com/api/token''
                  [(''grant_type'', ''refresh_token''), (''refresh_token'', ''refresh-1''),
                   (''client_id'', ''client123'')],
                Api ''https://api.spotify.com/v1/me'' ''access-2'']"
    by (subst step, subst step)
  with 1 2 3 4 5 show ?thesis by simp
qed

text \<open>
  Claim C2 as stated promises one retry at most, and the authentication-required error
  when the retried call is answered 401 as well. With the profile request answered 401
  twice and both refreshes granted, the gateway sends three API requests and two refresh
  requests, and the caller receives the successful third answer.
\<close>

theorem makeApiRequest_second_401_counterexample:
  "fst (makeApiRequest ''/me'' fresh_client twice_unauthorized) =
     Fulfilled (empty_json\<lparr>payload := ''profile''\<rparr>) \<and>
   length (filter is_api_request
     (requests (snd (snd (makeApiRequest ''/me'' fresh_client twice_unauthorized))))) = 3 \<and>
   length (filter is_refresh_request
     (requests (snd (snd (makeApiRequest ''/me'' fresh_client twice_unauthorized))))) = 2"
proof -
  have "fst (makeApiRequest ''/me'' fresh_client twice_unauthorized) =
     Fulfilled (empty_json\<lparr>payload := ''profile''\<rparr>) \<and>
   requests (snd (snd (makeApiRequest ''/me'' fresh_client twice_unauthorized))) =
     [Api ''https://api.spotify.com/v1/me'' ''access-1'',
      Post ''https://accounts.spotify.com/api/token''
        [(''grant_type'', ''refresh_token''), (''refresh_token'', ''refresh-1''),
         (''client_id'', ''client123'')],
      Api ''https://api.spotify.com/v1/me'' ''access-2'',
      Post ''https://accounts.spotify.com/api/token''
        [(''grant_type'', ''refresh_token''), (''refresh_token'', ''refresh-1''),
         (''client_id'', ''client123'')],
      Api ''https://api.spotify.com/v1/me'' ''access-3'']"
    by (simp add: makeApiRequest.simps gateway_defs client_defs concrete_defs
        twice_unauthorized_def)
  then show ?thesis by (simp add: request_kinds SPOTIFY_ACCOUNTS_BASE_URL_def)
qed

subsection \<open>The authorization redirect\<close>

lemma authorization_params_keys:
  "map fst (authorization_params config state) =
     [''response_type'', ''client_id'', ''scope'', ''redirect_uri'', ''state'']"
  by (simp add: authorization_params_def)

lemma getSpotifyConfig_storeState: "getSpotifyConfig (storeState s w) = getSpotifyConfig w"
  by (simp add: getSpotifyConfig_def storeState_def)

lemma getSpotifyConfig_crypto: "getSpotifyConfig (w\<lparr>crypto := r\<rparr>) = getSpotifyConfig w"
  by (simp add: getSpotifyConfig_def)

lemma initiateAuth_url:
  assumes "initiateAuth w = (Fulfilled url, w')"
  shows "url = authorize (getSpotifyConfig w) @ ''?'' @
           URLSearchParams_toString
             (authorization_params (getSpotifyConfig w) (fst (generateState (crypto w))))"
  using assms
  by (auto simp: initiateAuth_def Let_def getSpotifyConfig_storeState getSpotifyConfig_crypto
      split: prod.splits outcome.splits)

text \<open>
  Claim C3 at a concrete login. In the browser at the local origin, with the client
  identifier configured, \<open>initiateAuth\<close> redirects to an authorization URL that carries
  \<open>response_type\<close>, \<open>client_id\<close>, \<open>scope\<close>, \<open>redirect_uri\<close> and \<open>state\<close> and nothing else:
  neither a \<open>code_challenge\<close> nor \<open>code_challenge_method=S256\<close>. No PKCE pair is generated
  (the random source is read for the 16 bytes of the state only) and no verifier is put
  into session storage.
\<close>

theorem initiateAuth_at_browser:
  "fst (initiateAuth browser) =
     Fulfilled ''https://accounts.spotify.com/authorize?response_type=code&client_id=client123&scope=user-read-private+user-read-email+playlist-read-private+playlist-read-collaborative+streaming+user-read-playback-state+user-modify-playback-state&redirect_uri=http%3A%2F%2Flocalhost%3A3000%2Fapi%2Fauth%2Fcallback%2Fspotify&state=ABCDEFGHIJKLMNOP'' \<and>
   map fst (authorization_params (getSpotifyConfig browser) (fst (generateState (crypto browser)))) =
     [''response_type'', ''client_id'', ''scope'', ''redirect_uri'', ''state''] \<and>
   href (snd (initiateAuth browser)) =
     Some ''https://accounts.spotify.com/authorize?response_type=code&client_id=client123&scope=user-read-private+user-read-email+playlist-read-private+playlist-read-collaborative+streaming+user-read-playback-state+user-modify-playback-state&redirect_uri=http%3A%2F%2Flocalhost%3A3000%2Fapi%2Fauth%2Fcallback%2Fspotify&state=ABCDEFGHIJKLMNOP'' \<and>
   sessionStorage (snd (initiateAuth browser)) ''spotify_oauth_state'' = Some ''ABCDEFGHIJKLMNOP'' \<and>
   sessionStorage (snd (initiateAuth browser)) ''spotify_code_verifier'' = None \<and>
   crypto (snd (initiateAuth browser)) 0 = 16"
proof -
  have g: "generateState (of_nat :: nat \<Rightarrow> byte) = (''ABCDEFGHIJKLMNOP'', \<lambda>i. of_nat (i + 16))"
    by (simp add: generateState_def generateRandomString_def getRandomValues_def possible_def
        upt_rec Let_def)
  show ?thesis
    by (simp add: initiateAuth_def g storeState_def validateSpotifyConfig_def
        missing_variables_def authorization_params_def URLSearchParams_toString_def
        form_encode_def form_encode_char_def alphanumeric_def hex_digit_def
        getSpotifyConfig_def SPOTIFY_ACCOUNTS_BASE_URL_def js_str_def truthy_def
        browser_def Let_def)
qed

subsection \<open>The callback handlers\<close>

lemmas callback_inputs = forged_callback_def matching_callback_def exchanging_server_def
  pending_browser_def signed_out_client_def

lemma GET_ignores_state:
  assumes "truthy s" and "truthy s'"
  shows "GET (q\<lparr>q_state := s\<rparr>) w = GET (q\<lparr>q_state := s'\<rparr>) w"
  using assms by (simp add: GET_def falsy_def split: outcome.splits)

lemma GET_exchanges:
  assumes "validateSpotifyConfig w = Fulfilled b" and "\<not> truthy (q_error q)"
    and "truthy (q_code q)" and "truthy (q_state q)"
  shows "requests (snd (GET q w)) =
           requests w @
             [Post (token (getSpotifyConfig w))
                [(''grant_type'', ''authorization_code''), (''code'', js_str (q_code q)),
                 (''redirect_uri'', redirectUri (getSpotifyConfig w)),
                 (''client_id'', js_str (clientId (getSpotifyConfig w))),
                 (''client_secret'', js_str (clientSecret (getSpotifyConfig w)))]]"
  using assms
  by (simp add: GET_def falsy_def Let_def send_def receive_def
      split: list.splits fetch_result.splits body.splits)

lemma initiateAuth_browser_stores_state:
  "sessionStorage (snd (initiateAuth browser)) ''spotify_oauth_state'' = Some ''ABCDEFGHIJKLMNOP''"
proof -
  have g: "generateState (of_nat :: nat \<Rightarrow> byte) = (''ABCDEFGHIJKLMNOP'', \<lambda>i. of_nat (i + 16))"
    by (simp add: generateState_def generateRandomString_def getRandomValues_def possible_def
        upt_rec Let_def)
  show ?thesis
    by (simp add: initiateAuth_def g storeState_def validateSpotifyConfig_def
        missing_variables_def getSpotifyConfig_def truthy_def browser_def Let_def)
qed

text \<open>
  Claim C4 at a forged callback. The login from the concrete browser stored the state
  \<open>ABCDEFGHIJKLMNOP\<close>; the callback request below carries the state \<open>forged\<close>. The
  server-redirect handler does not compare the state with anything: it sends the
  authorization code to the token endpoint and redirects home with the token cookies
  set.
\<close>

theorem GET_forged_state_exchanges_code:
  "sessionStorage (snd (initiateAuth browser)) ''spotify_oauth_state'' = Some ''ABCDEFGHIJKLMNOP'' \<and>
   q_state forged_callback = Some ''forged'' \<and>
   GET forged_callback exchanging_server =
     (Fulfilled
        \<lparr> location = Home,
          cookies = [(''spotify_access_token'', Some ''access-1''),
                     (''spotify_refresh_token'', Some ''refresh-1'')] \<rparr>,
      exchanging_server
        \<lparr> requests :=
            [Post ''https://accounts.spotify.com/api/token''
               [(''grant_type'', ''authorization_code''), (''code'', ''code-1''),
                (''redirect_uri'', ''http://localhost:3000/api/auth/callback/spotify''),
                (''client_id'', ''client123''), (''client_secret'', ''secret456'')]],
          script := [Responds (token_response ''access-2'' (Some ''refresh-2''))] \<rparr>) \<and>
   length (filter is_exchange_request (requests (snd (GET forged_callback exchanging_server)))) = 1"
  by (simp add: initiateAuth_browser_stores_state)
    (simp add: GET_def validateSpotifyConfig_def missing_variables_def client_defs
      concrete_defs callback_inputs request_kinds Let_def)

text \<open>
  With \<open>retrieveState\<close> and \<open>retrievePKCEVerifier\<close> bound in the module, the handler
  protects against replay: the first call reads and deletes the stored state, so a
  second call with the same pair fails on the state check and sends nothing.
\<close>

lemma retrieveState_twice:
  "retrieveState w = (s, w1) \<Longrightarrow> fst (retrieveState w1) = None"
  by (auto simp: retrieveState_def Let_def split: if_splits)

lemma handleAuthCallback_in_consumes_state:
  assumes "''retrieveState'' \<in> set scope"
    and "handleAuthCallback_in scope code state c w = (x, c1, w1)"
  shows "fst (retrieveState w1) = None"
proof -
  obtain s wa where r: "retrieveState w = (s, wa)" by (cases "retrieveState w")
  have wa: "window wa = window w"
    "window w \<Longrightarrow> sessionStorage wa ''spotify_oauth_state'' = None"
    using r by (auto simp: retrieveState_def Let_def split: if_splits)
  have keep: "window w1 = window w \<and>
              (window w \<longrightarrow> sessionStorage w1 ''spotify_oauth_state'' = None)"
    using assms r wa
    by (auto simp: handleAuthCallback_in_def retrievePKCEVerifier_def Let_def send_def
        receive_def setTokens_def saveTokensToStorage_def
        split: if_splits prod.splits option.splits list.splits fetch_result.splits body.splits
          jsdate.splits)
  then show ?thesis by (auto simp: retrieveState_def Let_def)
qed

lemma handleAuthCallback_in_replay:
  assumes "''retrieveState'' \<in> set scope"
    and "handleAuthCallback_in scope code state c w = (x, c1, w1)"
  shows "handleAuthCallback_in scope code state c1 w1 =
           (Rejected InvalidStateParameter, c1, snd (retrieveState w1))"
  using handleAuthCallback_in_consumes_state [OF assms] assms(1)
  by (cases "retrieveState w1") (simp add: handleAuthCallback_in_def)

lemma retrieveState_requests: "requests (snd (retrieveState w)) = requests w"
  by (simp add: retrieveState_def Let_def)

text \<open>
  Claim C5 at a concrete callback. The browser holds a pending authorization and the
  token endpoint would accept the exchange. In the module as it is written, the first
  call of \<open>handleAuthCallback\<close> with the matching state already fails, with a
  ReferenceError for \<open>retrieveState\<close>, before it reads or deletes anything: the stored
  state and verifier are still there and no request was sent, and a second call does
  the same. On the server-redirect handler, which keeps no pending authorization, the
  callback succeeds once and the same callback repeated exchanges the same code a
  second time.
\<close>

theorem callback_replay_at_concrete_input:
  "handleAuthCallback ''code-1'' ''ABCDEFGHIJKLMNOP'' signed_out_client pending_browser =
     (Rejected (ReferenceError ''retrieveState''), signed_out_client, pending_browser) \<and>
   sessionStorage pending_browser ''spotify_oauth_state'' = Some ''ABCDEFGHIJKLMNOP'' \<and>
   sessionStorage pending_browser ''spotify_code_verifier'' = Some ''verifier-1'' \<and>
   fst (GET matching_callback exchanging_server) =
     Fulfilled \<lparr> location = Home,
                 cookies = [(''spotify_access_token'', Some ''access-1''),
                            (''spotify_refresh_token'', Some ''refresh-1'')] \<rparr> \<and>
   fst (GET matching_callback (snd (GET matching_callback exchanging_server))) =
     Fulfilled \<lparr> location = Home,
                 cookies = [(''spotify_access_token'', Some ''access-2''),
                            (''spotify_refresh_token'', Some ''refresh-2'')] \<rparr> \<and>
   requests (snd (GET matching_callback (snd (GET matching_callback exchanging_server)))) =
     [Post ''https://accounts.spotify.com/api/token''
        [(''grant_type'', ''authorization_code''), (''code'', ''code-1''),
         (''redirect_uri'', ''http://localhost:3000/api/auth/callback/spotify''),
         (''client_id'', ''client123''), (''client_secret'', ''secret456'')],
      Post ''https://accounts.spotify.com/api/token''
        [(''grant_type'', ''authorization_code''), (''code'', ''code-1''),
         (''redirect_uri'', ''http://localhost:3000/api/auth/callback/spotify''),
         (''client_id'', ''client123''), (''client_secret'', ''secret456'')]]"
proof -
  have a: "handleAuthCallback ''code-1'' ''ABCDEFGHIJKLMNOP'' signed_out_client pending_browser =
     (Rejected (ReferenceError ''retrieveState''), signed_out_client, pending_browser)"
    by (simp add: handleAuthCallback_def handleAuthCallback_in_def spotifyApi_imports_def)
  have b: "sessionStorage pending_browser ''spotify_oauth_state'' = Some ''ABCDEFGHIJKLMNOP''"
    "sessionStorage pending_browser ''spotify_code_verifier'' = Some ''verifier-1''"
    by (simp_all add: pending_browser_def)
  have c: "GET matching_callback exchanging_server =
     (Fulfilled
        \<lparr> location = Home,
          cookies = [(''spotify_access_token'', Some ''access-1''),
                     (''spotify_refresh_token'', Some ''refresh-1'')] \<rparr>,
      exchanging_server
        \<lparr> requests :=
            [Post ''https://accounts.spotify.com/api/token''
               [(''grant_type'', ''authorization_code''), (''code'', ''code-1''),
                (''redirect_uri'', ''http://localhost:3000/api/auth/callback/spotify''),
                (''client_id'', ''client123''), (''client_secret'', ''secret456'')]],
          script := [Responds (token_response ''access-2'' (Some ''refresh-2''))] \<rparr>)"
    by (simp add: GET_def validateSpotifyConfig_def missing_variables_def client_defs
        concrete_defs callback_inputs Let_def)
  have d: "fst (GET matching_callback (snd (GET matching_callback exchanging_server))) =
     Fulfilled \<lparr> location = Home,
                 cookies = [(''spotify_access_token'', Some ''access-2''),
                            (''spotify_refresh_token'', Some ''refresh-2'')] \<rparr> \<and>
   requests (snd (GET matching_callback (snd (GET matching_callback exchanging_server)))) =
     [Post ''https://accounts.spotify.com/api/token''
        [(''grant_type'', ''authorization_code''), (''code'', ''code-1''),
         (''redirect_uri'', ''http://localhost:3000/api/auth/callback/spotify''),
         (''client_id'', ''client123''), (''client_secret'', ''secret456'')],
      Post ''https://accounts.spotify.com/api/token''
        [(''grant_type'', ''authorization_code''), (''code'', ''code-1''),
         (''redirect_uri'', ''http://localhost:3000/api/auth/callback/spotify''),
         (''client_id'', ''client123''), (''client_secret'', ''secret456'')]]"
    unfolding c
    by (simp add: GET_def validateSpotifyConfig_def missing_variables_def client_defs
        concrete_defs callback_inputs Let_def)
  from a b c d show ?thesis by simp
qed

lemma handleAuthCallback_in_bound_example:
  "fst (handleAuthCallback_in (''retrieveState'' # ''retrievePKCEVerifier'' # spotifyApi_imports)
          ''code-1'' ''ABCDEFGHIJKLMNOP'' signed_out_client pending_browser) = Fulfilled True \<and>
   requests (snd (snd (handleAuthCallback_in
          (''retrieveState'' # ''retrievePKCEVerifier'' # spotifyApi_imports)
          ''code-1'' ''ABCDEFGHIJKLMNOP'' signed_out_client pending_browser))) =
     [Post ''https://accounts.spotify.com/api/token''
        [(''grant_type'', ''authorization_code''), (''code'', ''code-1''),
         (''redirect_uri'', ''http://localhost:3000/api/auth/callback/spotify''),
         (''client_id'', ''client123''), (''code_verifier'', ''verifier-1'')]]"
  by (simp add: handleAuthCallback_in_def retrieveState_def retrievePKCEVerifier_def
      client_defs concrete_defs callback_inputs Let_def)

subsection \<open>Refreshes in flight together\<close>

lemma refresh_request_send: "refresh_request c (send rq w) = refresh_request c w"
  by (simp add: refresh_request_def getSpotifyConfig_def send_def)

lemma triggers_in_one_tick_requests:
  "truthy (refreshToken c) \<Longrightarrow>
   requests (triggers_in_one_tick n c w) = requests w @ replicate n (refresh_request c w)"
proof (induction n arbitrary: w)
  case 0
  then show ?case by simp
next
  case (Suc n)
  have "requests (triggers_in_one_tick (Suc n) c w) =
          requests (triggers_in_one_tick n c (send (refresh_request c w) w))"
    using Suc.prems by (simp add: refreshAccessToken_start_def)
  also have "\<dots> = requests (send (refresh_request c w) w) @
                     replicate n (refresh_request c (send (refresh_request c w) w))"
    using Suc.prems by (rule Suc.IH)
  also have "\<dots> = requests w @ replicate (Suc n) (refresh_request c w)"
    by (simp add: refresh_request_send) (simp add: send_def)
  finally show ?case .
qed

lemma refresh_request_is_refresh: "is_refresh_request (refresh_request c w)"
  by (simp add: is_refresh_request_def refresh_request_def getSpotifyConfig_def)

text \<open>
  Claim C1, as the code has it. The client keeps no handle of a refresh in flight. Every
  trigger that finds a refresh token sends its own refresh request to the token
  endpoint: \<open>n\<close> triggers that start before any of their responses is handled send \<open>n\<close>
  refresh requests, all with the same refresh token.
\<close>

theorem triggers_each_send_a_refresh:
  assumes "truthy (refreshToken c)"
  shows "requests (triggers_in_one_tick n c w) = requests w @ replicate n (refresh_request c w) \<and>
         is_refresh_request (refresh_request c w) \<and>
         length (filter is_refresh_request (requests (triggers_in_one_tick n c w))) =
           length (filter is_refresh_request (requests w)) + n"
  using triggers_in_one_tick_requests [OF assms, of n w] refresh_request_is_refresh [of c w]
  by simp

theorem triggers_each_send_a_refresh_witness:
  "truthy (refreshToken fresh_client) \<and>
   requests (triggers_in_one_tick 2 fresh_client signed_in_browser) =
     [Post ''https://accounts.spotify.com/api/token''
        [(''grant_type'', ''refresh_token''), (''refresh_token'', ''refresh-1''),
         (''client_id'', ''client123'')],
      Post ''https://accounts.spotify.com/api/token''
        [(''grant_type'', ''refresh_token''), (''refresh_token'', ''refresh-1''),
         (''client_id'', ''client123'')]]"
proof -
  have t: "truthy (refreshToken fresh_client)" by (simp add: fresh_client_def truthy_def)
  have r: "refresh_request fresh_client signed_in_browser =
     Post ''https://accounts.spotify.com/api/token''
        [(''grant_type'', ''refresh_token''), (''refresh_token'', ''refresh-1''),
         (''client_id'', ''client123'')]"
    by (simp add: client_defs concrete_defs)
  have e: "requests signed_in_browser = []" by (simp add: concrete_defs)
  have n: "replicate 2 x = [x, x]" for x :: request by (simp add: numeral_2_eq_2)
  from triggers_each_send_a_refresh [OF t, of 2 signed_in_browser] t show ?thesis
    by (simp add: r e n)
qed

text \<open>
  Claim C1 as stated asks for exactly one refresh request when two triggers coincide, and
  for both callers to see the result of that one operation. With the timer's trigger and
  a 401 trigger both started before either response is handled, two refresh requests
  are sent; when the token endpoint rejects the first and grants the second, the first
  caller's refresh is rejected (and clears the credential) while the second caller's is
  fulfilled.
\<close>

theorem two_triggers_counterexample:
  "length (filter is_refresh_request
     (requests (triggers_in_one_tick 2 fresh_client signed_in_browser))) = 2 \<and>
   fst (refreshAccessToken_resume (Responds rejected_refresh) fresh_client
          (triggers_in_one_tick 2 fresh_client signed_in_browser)) =
     Rejected (TokenRefreshFailed (Some ''invalid_grant'')) \<and>
   fst (refreshAccessToken_resume (Responds (token_response ''access-2'' None))
          (fst (snd (refreshAccessToken_resume (Responds rejected_refresh) fresh_client
                       (triggers_in_one_tick 2 fresh_client signed_in_browser))))
          (snd (snd (refreshAccessToken_resume (Responds rejected_refresh) fresh_client
                       (triggers_in_one_tick 2 fresh_client signed_in_browser))))) =
     Fulfilled True"
  by (simp add: numeral_2_eq_2 client_defs concrete_defs request_kinds)

subsection \<open>The client-side handler in general\<close>

text \<open>
  In the module as written every call of \<open>handleAuthCallback\<close> stops at the unbound
  \<open>retrieveState\<close>. With the two names of pkce.js bound, a state that differs from the
  stored one (or no stored one) is rejected before anything is sent.
\<close>

lemma handleAuthCallback_unbound:
  "handleAuthCallback code state c w = (Rejected (ReferenceError ''retrieveState''), c, w)"
  by (simp add: handleAuthCallback_def handleAuthCallback_in_def spotifyApi_imports_def)

lemma handleAuthCallback_in_mismatch:
  assumes "''retrieveState'' \<in> set scope" and "fst (retrieveState w) \<noteq> Some state"
  shows "handleAuthCallback_in scope code state c w =
           (Rejected InvalidStateParameter, c, snd (retrieveState w))"
    and "requests (snd (snd (handleAuthCallback_in scope code state c w))) = requests w"
proof -
  show 1: "handleAuthCallback_in scope code state c w =
           (Rejected InvalidStateParameter, c, snd (retrieveState w))"
    using assms by (cases "retrieveState w") (auto simp: handleAuthCallback_in_def)
  show "requests (snd (snd (handleAuthCallback_in scope code state c w))) = requests w"
    by (simp add: 1 retrieveState_requests)
qed

end
